theory Spec2Isabelle
  imports Main "HOL-Library.Word"
begin

section \<open>Status codes and the error type\<close>

text \<open>
  Modelled from the spec: the enum \<open>StatusCode\<close> (status-code.js, imported by the error
  class, and called \<open>Code\<close> by the transport) is not among the sources. The spec gives
  "the standard gRPC status code table, values 0-16. Code 0 = OK"; the members are listed in
  the order of their values.
\<close>

datatype StatusCode =
    Ok | Canceled | Unknown | InvalidArgument | DeadlineExceeded | NotFound
  | AlreadyExists | PermissionDenied | ResourceExhausted | FailedPrecondition
  | Aborted | OutOfRange | Unimplemented | Internal | Unavailable | DataLoss
  | Unauthenticated

text \<open>
  Modelled from the spec: \<open>StatusCode[code]\<close>, the reverse mapping of the enum, gives the
  member's name.
\<close>

fun StatusCode_name :: "StatusCode \<Rightarrow> string" where
  "StatusCode_name Ok = ''Ok''"
| "StatusCode_name Canceled = ''Canceled''"
| "StatusCode_name Unknown = ''Unknown''"
| "StatusCode_name InvalidArgument = ''InvalidArgument''"
| "StatusCode_name DeadlineExceeded = ''DeadlineExceeded''"
| "StatusCode_name NotFound = ''NotFound''"
| "StatusCode_name AlreadyExists = ''AlreadyExists''"
| "StatusCode_name PermissionDenied = ''PermissionDenied''"
| "StatusCode_name ResourceExhausted = ''ResourceExhausted''"
| "StatusCode_name FailedPrecondition = ''FailedPrecondition''"
| "StatusCode_name Aborted = ''Aborted''"
| "StatusCode_name OutOfRange = ''OutOfRange''"
| "StatusCode_name Unimplemented = ''Unimplemented''"
| "StatusCode_name Internal = ''Internal''"
| "StatusCode_name Unavailable = ''Unavailable''"
| "StatusCode_name DataLoss = ''DataLoss''"
| "StatusCode_name Unauthenticated = ''Unauthenticated''"

text \<open>\<open>type ErrorCode = Exclude<StatusCode, StatusCode.Ok>\<close>\<close>

typedef ErrorCode = "{c :: StatusCode. c \<noteq> Ok}"
  by (rule exI [of _ Unknown]) simp

setup_lifting type_definition_ErrorCode

lift_definition ErrorCode_Unknown :: ErrorCode is Unknown
  by simp

lift_definition ErrorCode_InvalidArgument :: ErrorCode is InvalidArgument
  by simp

lift_definition ErrorCode_ResourceExhausted :: ErrorCode is ResourceExhausted
  by simp

text \<open>The payload type \<open>Any\<close> of the details is opaque here: its serialized bytes.\<close>

type_synonym bytes = "8 word list"

type_synonym Any = bytes

text \<open>
  \<open>class ConnectError extends Error\<close>: the fields \<open>code\<close>, \<open>details\<close> and \<open>name\<close>, and the
  \<open>message\<close> that the constructor hands to \<open>Error\<close>.
\<close>

record ConnectError =
  message :: string
  code :: ErrorCode
  details :: "Any list"
  name :: string

text \<open>
  The constructor. An argument that is not supplied is \<open>None\<close>: \<open>code\<close> then takes its
  default \<open>StatusCode.Unknown\<close>, and \<open>details ?? []\<close> is the empty list.
\<close>

definition new_ConnectError :: "string \<Rightarrow> ErrorCode option \<Rightarrow> Any list option \<Rightarrow> ConnectError" where
  "new_ConnectError msg code_arg details_arg =
     (let c = (case code_arg of None \<Rightarrow> ErrorCode_Unknown | Some c' \<Rightarrow> c')
      in \<lparr> message = ''['' @ StatusCode_name (Rep_ErrorCode c) @ ''] '' @ msg,
           code = c,
           details = (case details_arg of None \<Rightarrow> [] | Some d \<Rightarrow> d),
           name = ''ConnectError'' \<rparr>)"

section \<open>Data of the transport\<close>

type_synonym Headers = "(string \<times> string) list"

text \<open>
  An asynchronous iterable that is consumed to its end: the items it yields, in order, and
  then either its regular end (\<open>None\<close>) or the error it throws (\<open>Some e\<close>). Bodies are
  finite here; a consumer that stops early sees a prefix of the items.
\<close>

type_synonym 'a iterable = "'a list \<times> ConnectError option"

text \<open>
  A compression descriptor is identified by its name; its functions are used only inside
  the envelope transforms, which are parameters of this development.
\<close>

type_synonym Compression = string

record EnvelopedMessage =
  flags :: "8 word"
  data :: bytes

text \<open>
  What \<open>transformParseEnvelope\<close> yields: \<open>{end: true, value: Headers}\<close> for the trailer
  envelope, \<open>{end: false, value: O}\<close> for a message envelope.
\<close>

datatype 'o ParsedEnvelope = EndValue Headers | MessageValue 'o

type_synonym 'a Serialization = "('a \<Rightarrow> bytes) \<times> (bytes \<Rightarrow> ConnectError + 'a)"

record UniversalClientRequest =
  req_url :: string
  req_method :: string
  req_header :: Headers
  req_body :: "bytes iterable"

record UniversalClientResponse =
  res_status :: nat
  res_header :: Headers
  res_body :: "bytes iterable"
  res_trailer :: Headers

text \<open>
  The validated options \<open>opt\<close> together with \<open>options.baseUrl\<close>. The HTTP client
  \<open>opt.client\<close> and the interceptors are passed to the operations on their own.
\<close>

record TransportOptions =
  baseUrl :: string
  useBinaryFormat :: bool
  acceptCompression :: "Compression list"
  sendCompression :: "Compression option"
  compressMinBytes :: nat
  readMaxBytes :: nat
  writeMaxBytes :: nat

text \<open>
  The method descriptor: its name, the test \<open>message instanceof method.I\<close> and the input
  constructor \<open>new method.I(message)\<close>. Input values, typed or partial, share the type \<open>'v\<close>.
\<close>

record 'v MethodInfo =
  method_name :: string
  I_instanceof :: "'v \<Rightarrow> bool"
  I_new :: "'v \<Rightarrow> 'v"

text \<open>
  The functions that the transport imports from the protocol core and that are not among
  the sources. They are parameters: every theorem below holds for all of them.
  \<open>validateResponseWithCompression\<close> either throws (\<open>Inl\<close>) or returns the matched
  compression and \<open>foundStatus\<close>; \<open>validateTrailer\<close> throws the error it returns, if any.
\<close>

record ('v, 'o) Core =
  getI :: "bool \<Rightarrow> 'v Serialization"
  getO :: "bool \<Rightarrow> 'o Serialization"
  createTrailerSerialization :: "Headers Serialization"
  trailerFlag :: "8 word"
  createMethodUrl :: "string \<Rightarrow> string \<Rightarrow> string \<Rightarrow> string"
  createRequestHeaderWithCompression ::
    "bool \<Rightarrow> nat option \<Rightarrow> Headers option \<Rightarrow> Compression list \<Rightarrow> Compression option \<Rightarrow> Headers"
  transformSerializeEnvelope ::
    "'v Serialization \<Rightarrow> nat \<Rightarrow> 'v iterable \<Rightarrow> EnvelopedMessage iterable"
  transformCompressEnvelope ::
    "Compression option \<Rightarrow> nat \<Rightarrow> EnvelopedMessage iterable \<Rightarrow> EnvelopedMessage iterable"
  transformJoinEnvelopes :: "EnvelopedMessage iterable \<Rightarrow> bytes iterable"
  transformSplitEnvelope :: "nat \<Rightarrow> bytes iterable \<Rightarrow> EnvelopedMessage iterable"
  transformDecompressEnvelope ::
    "Compression option \<Rightarrow> nat \<Rightarrow> EnvelopedMessage iterable \<Rightarrow> EnvelopedMessage iterable"
  transformParseEnvelope ::
    "'o Serialization \<Rightarrow> 8 word \<Rightarrow> Headers Serialization \<Rightarrow> EnvelopedMessage iterable
       \<Rightarrow> 'o ParsedEnvelope iterable"
  validateResponseWithCompression ::
    "bool \<Rightarrow> Compression list \<Rightarrow> nat \<Rightarrow> Headers \<Rightarrow> ConnectError + (Compression option \<times> bool)"
  validateTrailer :: "Headers \<Rightarrow> ConnectError option"

section \<open>Pipelines\<close>

text \<open>
  Modelled from the spec: \<open>pipe\<close>, \<open>pipeTo\<close> and \<open>createAsyncIterable\<close> of the protocol core
  are not among the sources. The spec's pipelines (source, then each transform, left to
  right, then the consumer) give: \<open>pipe(source, t1, ..., tn)\<close> is the iterable
  \<open>tn(...(t1(source)))\<close>, and \<open>pipeTo(source, t1, ..., tn, sink)\<close> is \<open>sink\<close> applied to it. The
  option \<open>propagateDownStreamError\<close> concerns only the abort of the source and is left out.
\<close>

definition createAsyncIterable :: "'a list \<Rightarrow> 'a iterable" where
  "createAsyncIterable items = (items, None)"

definition pipe3 :: "'a \<Rightarrow> ('a \<Rightarrow> 'b) \<Rightarrow> ('b \<Rightarrow> 'c) \<Rightarrow> ('c \<Rightarrow> 'd) \<Rightarrow> 'd" where
  "pipe3 source t1 t2 t3 = t3 (t2 (t1 source))"

definition pipe4 :: "'a \<Rightarrow> ('a \<Rightarrow> 'b) \<Rightarrow> ('b \<Rightarrow> 'c) \<Rightarrow> ('c \<Rightarrow> 'd) \<Rightarrow> ('d \<Rightarrow> 'e) \<Rightarrow> 'e" where
  "pipe4 source t1 t2 t3 t4 = t4 (t3 (t2 (t1 source)))"

definition pipeTo3 :: "'a \<Rightarrow> ('a \<Rightarrow> 'b) \<Rightarrow> ('b \<Rightarrow> 'c) \<Rightarrow> ('c \<Rightarrow> 'd) \<Rightarrow> ('d \<Rightarrow> 'r) \<Rightarrow> 'r" where
  "pipeTo3 source t1 t2 t3 sink = sink (t3 (t2 (t1 source)))"

text \<open>
  Modelled from the spec: \<open>transformNormalizeMessage\<close> of the protocol core is not among the
  sources. The spec: "normalize(input) accepts a typed message or a partial structural
  value and returns the canonical typed form; it is used before serialize on the outbound
  stream". A typed message is an instance of the input class; any other value goes through
  the input constructor.
\<close>

definition normalizeMessage :: "'v MethodInfo \<Rightarrow> 'v \<Rightarrow> 'v" where
  "normalizeMessage method m = (if I_instanceof method m then m else I_new method m)"

definition transformNormalizeMessage :: "'v MethodInfo \<Rightarrow> 'v iterable \<Rightarrow> 'v iterable" where
  "transformNormalizeMessage method it = (map (normalizeMessage method) (fst it), snd it)"

text \<open>
  Modelled from the spec: \<open>runUnary\<close> and \<open>runStreaming\<close> of the protocol core are not among
  the sources. The spec: an interceptor maps the call function to a call function, and "the
  first interceptor in the user-supplied list is the outermost".
\<close>

definition applyInterceptors :: "('f \<Rightarrow> 'f) list option \<Rightarrow> 'f \<Rightarrow> 'f" where
  "applyInterceptors interceptors next =
     (case interceptors of None \<Rightarrow> next | Some is \<Rightarrow> foldr (\<lambda>i n. i n) is next)"

definition runUnary :: "'req \<Rightarrow> ('req \<Rightarrow> 'res) \<Rightarrow> (('req \<Rightarrow> 'res) \<Rightarrow> ('req \<Rightarrow> 'res)) list option \<Rightarrow> 'res" where
  "runUnary req next interceptors = applyInterceptors interceptors next req"

definition runStreaming :: "'req \<Rightarrow> ('req \<Rightarrow> 'res) \<Rightarrow> (('req \<Rightarrow> 'res) \<Rightarrow> ('req \<Rightarrow> 'res)) list option \<Rightarrow> 'res" where
  "runStreaming req next interceptors = applyInterceptors interceptors next req"

section \<open>The unary call\<close>

text \<open>
  The request object that \<open>unary\<close> hands to \<open>runUnary\<close>, with the input normalized. The
  constant fields \<open>stream\<close> and \<open>init\<close> and the signal are left out: cancellation is
  outside this development.
\<close>

record 'v UnaryRequest =
  ureq_service :: string
  ureq_method :: "'v MethodInfo"
  ureq_url :: string
  ureq_header :: Headers
  ureq_message :: 'v

record 'o UnaryResponse =
  ures_header :: Headers
  ures_message :: 'o
  ures_trailer :: Headers

definition unary_request ::
  "('v, 'o) Core \<Rightarrow> TransportOptions \<Rightarrow> string \<Rightarrow> 'v MethodInfo \<Rightarrow> nat option \<Rightarrow> Headers option \<Rightarrow> 'v
     \<Rightarrow> 'v UnaryRequest" where
  "unary_request core opt service method timeoutMs header message' =
     \<lparr> ureq_service = service,
       ureq_method = method,
       ureq_url = createMethodUrl core (baseUrl opt) service (method_name method),
       ureq_header = createRequestHeaderWithCompression core (useBinaryFormat opt) timeoutMs header
          (acceptCompression opt) (sendCompression opt),
       ureq_message = (if I_instanceof method message' then message' else I_new method message') \<rparr>"

text \<open>The request that the call function sends with \<open>opt.client\<close>.\<close>

definition unary_client_request ::
  "('v, 'o) Core \<Rightarrow> TransportOptions \<Rightarrow> 'v UnaryRequest \<Rightarrow> UniversalClientRequest" where
  "unary_client_request core opt req =
     \<lparr> req_url = ureq_url req,
       req_method = ''POST'',
       req_header = ureq_header req,
       req_body =
         pipe3 (createAsyncIterable [ureq_message req])
           (transformSerializeEnvelope core (getI core (useBinaryFormat opt)) (writeMaxBytes opt))
           (transformCompressEnvelope core (sendCompression opt) (compressMinBytes opt))
           (transformJoinEnvelopes core) \<rparr>"

text \<open>
  The consumer of the parsed response body: the \<open>for await\<close> loop over the envelopes with
  its two variables \<open>message\<close> (here \<open>message'\<close>) and \<open>trailer\<close>. An error of the iterable
  ends the loop.
\<close>

fun unary_collect ::
  "'o option \<Rightarrow> Headers option \<Rightarrow> 'o ParsedEnvelope list \<Rightarrow> ConnectError option
     \<Rightarrow> ConnectError + (Headers option \<times> 'o option)" where
  "unary_collect message' trailer [] None = Inr (trailer, message')"
| "unary_collect message' trailer [] (Some e) = Inl e"
| "unary_collect message' trailer (EndValue v # rest) err =
     (if trailer \<noteq> None
      then Inl (new_ConnectError ''protocol error: received extra trailer''
                  (Some ErrorCode_InvalidArgument) None)
      else unary_collect message' (Some v) rest err)"
| "unary_collect message' trailer (MessageValue v # rest) err =
     (if message' \<noteq> None
      then Inl (new_ConnectError ''protocol error: received extra output message for unary method''
                  (Some ErrorCode_InvalidArgument) None)
      else unary_collect (Some v) trailer rest err)"

definition unary_sink ::
  "'o ParsedEnvelope iterable \<Rightarrow> ConnectError + (Headers option \<times> 'o option)" where
  "unary_sink iterable = unary_collect None None (fst iterable) (snd iterable)"

text \<open>The response pipeline: split, decompress, parse.\<close>

definition response_envelopes ::
  "('v, 'o) Core \<Rightarrow> TransportOptions \<Rightarrow> Compression option \<Rightarrow> bytes iterable
     \<Rightarrow> 'o ParsedEnvelope iterable" where
  "response_envelopes core opt compression body =
     pipe3 body
       (transformSplitEnvelope core (readMaxBytes opt))
       (transformDecompressEnvelope core compression (readMaxBytes opt))
       (transformParseEnvelope core (getO core (useBinaryFormat opt)) (trailerFlag core)
          (createTrailerSerialization core))"

text \<open>
  The call function from the validation of the response on. \<open>foundStatus\<close> is not read by
  the unary call: only \<open>compression\<close> is taken from the validation's result.
\<close>

definition unary_receive ::
  "('v, 'o) Core \<Rightarrow> TransportOptions \<Rightarrow> UniversalClientResponse \<Rightarrow> ConnectError + 'o UnaryResponse" where
  "unary_receive core opt universalResponse =
     (case validateResponseWithCompression core (useBinaryFormat opt) (acceptCompression opt)
             (res_status universalResponse) (res_header universalResponse) of
        Inl e \<Rightarrow> Inl e
      | Inr (compression, foundStatus) \<Rightarrow>
          (case pipeTo3 (res_body universalResponse)
                  (transformSplitEnvelope core (readMaxBytes opt))
                  (transformDecompressEnvelope core compression (readMaxBytes opt))
                  (transformParseEnvelope core (getO core (useBinaryFormat opt)) (trailerFlag core)
                     (createTrailerSerialization core))
                  unary_sink of
             Inl e \<Rightarrow> Inl e
           | Inr (trailer, message') \<Rightarrow>
               (case trailer of
                  None \<Rightarrow> Inl (new_ConnectError ''protocol error: missing trailer''
                                 (Some ErrorCode_InvalidArgument) None)
                | Some t \<Rightarrow>
                    (case validateTrailer core t of
                       Some e \<Rightarrow> Inl e
                     | None \<Rightarrow>
                         (case message' of
                            None \<Rightarrow> Inl (new_ConnectError
                                           ''protocol error: missing output message for unary method''
                                           (Some ErrorCode_InvalidArgument) None)
                          | Some m \<Rightarrow>
                              Inr \<lparr> ures_header = res_header universalResponse,
                                    ures_message = m,
                                    ures_trailer = t \<rparr>)))))"

text \<open>
  The call function of \<open>unary\<close>. The client's promise is taken at its settlement: \<open>Inl\<close> when
  it rejects, \<open>Inr\<close> with the response otherwise.
\<close>

definition unary_next ::
  "('v, 'o) Core \<Rightarrow> TransportOptions \<Rightarrow> (UniversalClientRequest \<Rightarrow> ConnectError + UniversalClientResponse)
     \<Rightarrow> 'v UnaryRequest \<Rightarrow> ConnectError + 'o UnaryResponse" where
  "unary_next core opt client req =
     (case client (unary_client_request core opt req) of
        Inl e \<Rightarrow> Inl e
      | Inr universalResponse \<Rightarrow> unary_receive core opt universalResponse)"

definition unary ::
  "('v, 'o) Core \<Rightarrow> TransportOptions \<Rightarrow> (UniversalClientRequest \<Rightarrow> ConnectError + UniversalClientResponse)
     \<Rightarrow> (('v UnaryRequest \<Rightarrow> ConnectError + 'o UnaryResponse)
          \<Rightarrow> ('v UnaryRequest \<Rightarrow> ConnectError + 'o UnaryResponse)) list option
     \<Rightarrow> string \<Rightarrow> 'v MethodInfo \<Rightarrow> nat option \<Rightarrow> Headers option \<Rightarrow> 'v
     \<Rightarrow> ConnectError + 'o UnaryResponse" where
  "unary core opt client interceptors service method timeoutMs header message' =
     runUnary (unary_request core opt service method timeoutMs header message')
       (unary_next core opt client) interceptors"

text \<open>The message and the trailer envelopes of a parsed body, in their order.\<close>

fun messages_of :: "'o ParsedEnvelope list \<Rightarrow> 'o list" where
  "messages_of [] = []"
| "messages_of (EndValue v # rest) = messages_of rest"
| "messages_of (MessageValue v # rest) = v # messages_of rest"

fun trailers_of :: "'o ParsedEnvelope list \<Rightarrow> Headers list" where
  "trailers_of [] = []"
| "trailers_of (EndValue v # rest) = v # trailers_of rest"
| "trailers_of (MessageValue v # rest) = trailers_of rest"

section \<open>The streaming call\<close>

text \<open>
  Modelled from the spec: \<open>defer\<close> (private/defer.js) is not among the sources. The spec:
  "Deferred promises for responseHeader / responseTrailer are one-shot futures completed
  from inside the read pipeline". A promise settles once: \<open>resolve\<close> and \<open>reject\<close> on a settled
  promise change nothing. \<open>promise_then f p\<close> is \<open>p.then(f)\<close>.
\<close>

datatype 'a promise = Pending | Fulfilled 'a | Rejected ConnectError

definition resolve :: "'a \<Rightarrow> 'a promise \<Rightarrow> 'a promise" where
  "resolve v p = (case p of Pending \<Rightarrow> Fulfilled v | Fulfilled w \<Rightarrow> Fulfilled w | Rejected e \<Rightarrow> Rejected e)"

definition reject :: "ConnectError \<Rightarrow> 'a promise \<Rightarrow> 'a promise" where
  "reject e p = (case p of Pending \<Rightarrow> Rejected e | Fulfilled w \<Rightarrow> Fulfilled w | Rejected e' \<Rightarrow> Rejected e')"

definition promise_then :: "('a \<Rightarrow> 'b) \<Rightarrow> 'a promise \<Rightarrow> 'b promise" where
  "promise_then f p = (case p of Pending \<Rightarrow> Pending | Fulfilled v \<Rightarrow> Fulfilled (f v) | Rejected e \<Rightarrow> Rejected e)"

text \<open>
  The asynchronous generator that is the last stage of the inbound pipe. It has not run yet
  (\<open>NotStarted\<close>, with \<open>foundStatus\<close> and the parsed body), or it is suspended at the \<open>yield\<close>
  of the loop (\<open>InLoop\<close>, with \<open>trailerReceived\<close> and the rest of the body), or it has
  returned or thrown (\<open>Completed\<close>). \<open>next()\<close> on a completed generator reports done.
  \<open>outputIt\<close> is the iterator of the pipe, which hands on what its last stage yields,
  returns and throws.
\<close>

datatype 'o generator =
    NotStarted bool "'o ParsedEnvelope iterable"
  | InLoop bool "'o ParsedEnvelope iterable"
  | Completed

datatype 'o IteratorResult = Yielded 'o | Returned | Thrown ConnectError

text \<open>
  The \<open>for await\<close> loop of the generator, run up to its next \<open>yield\<close>, \<open>return\<close> or \<open>throw\<close>.
  It takes and returns the deferred \<open>responseTrailer\<close>.
\<close>

fun generator_loop ::
  "(Headers \<Rightarrow> ConnectError option) \<Rightarrow> bool \<Rightarrow> 'o ParsedEnvelope list \<Rightarrow> ConnectError option
     \<Rightarrow> Headers promise \<Rightarrow> Headers promise \<times> 'o generator \<times> 'o IteratorResult" where
  "generator_loop vt trailerReceived [] None rt =
     (if \<not> trailerReceived
      then (reject (new_ConnectError ''protocol error: missing trailer''
                      (Some ErrorCode_InvalidArgument) None) rt,
            Completed,
            Thrown (new_ConnectError ''protocol error: missing trailer''
                      (Some ErrorCode_InvalidArgument) None))
      else (rt, Completed, Returned))"
| "generator_loop vt trailerReceived [] (Some e) rt = (rt, Completed, Thrown e)"
| "generator_loop vt trailerReceived (EndValue v # rest) err rt =
     (if trailerReceived
      then (reject (new_ConnectError ''protocol error: received extra trailer''
                      (Some ErrorCode_InvalidArgument) None) rt,
            Completed,
            Thrown (new_ConnectError ''protocol error: received extra trailer''
                      (Some ErrorCode_InvalidArgument) None))
      else (case vt v of
              Some e \<Rightarrow> (rt, Completed, Thrown e)
            | None \<Rightarrow> generator_loop vt True rest err (resolve v rt)))"
| "generator_loop vt trailerReceived (MessageValue v # rest) err rt =
     (if trailerReceived
      then (reject (new_ConnectError ''protocol error: received extra message after trailer''
                      (Some ErrorCode_InvalidArgument) None) rt,
            Completed,
            Thrown (new_ConnectError ''protocol error: received extra message after trailer''
                      (Some ErrorCode_InvalidArgument) None))
      else (rt, InLoop trailerReceived (rest, err), Yielded v))"

text \<open>One call of \<open>next()\<close> on the generator.\<close>

fun generator_next ::
  "(Headers \<Rightarrow> ConnectError option) \<Rightarrow> 'o generator \<Rightarrow> Headers promise
     \<Rightarrow> Headers promise \<times> 'o generator \<times> 'o IteratorResult" where
  "generator_next vt (NotStarted foundStatus (envs, err)) rt =
     (if foundStatus
      then (case envs of
              [] \<Rightarrow> (case err of
                       None \<Rightarrow> (rt, Completed, Returned)
                     | Some e \<Rightarrow> (rt, Completed, Thrown e))
            | r # rest \<Rightarrow>
                (reject (new_ConnectError ''protocol error: received extra trailer''
                           (Some ErrorCode_InvalidArgument) None) rt,
                 Completed,
                 Thrown (new_ConnectError ''protocol error: received extra trailer''
                           (Some ErrorCode_InvalidArgument) None)))
      else generator_loop vt False envs err rt)"
| "generator_next vt (InLoop trailerReceived (envs, err)) rt =
     generator_loop vt trailerReceived envs err rt"
| "generator_next vt Completed rt = (rt, Completed, Returned)"

record 'v StreamingRequest =
  sreq_service :: string
  sreq_method :: "'v MethodInfo"
  sreq_url :: string
  sreq_header :: Headers

definition stream_request ::
  "('v, 'o) Core \<Rightarrow> TransportOptions \<Rightarrow> string \<Rightarrow> 'v MethodInfo \<Rightarrow> nat option \<Rightarrow> Headers option
     \<Rightarrow> 'v StreamingRequest" where
  "stream_request core opt service method timeoutMs header =
     \<lparr> sreq_service = service,
       sreq_method = method,
       sreq_url = createMethodUrl core (baseUrl opt) service (method_name method),
       sreq_header = createRequestHeaderWithCompression core (useBinaryFormat opt) timeoutMs header
          (acceptCompression opt) (sendCompression opt) \<rparr>"

text \<open>
  The request that \<open>stream\<close> sends with \<open>opt.client\<close>. Its body is the pipe over the
  writable; \<open>written\<close> are the messages that \<open>send\<close> writes to it over the call.
\<close>

definition stream_client_request ::
  "('v, 'o) Core \<Rightarrow> TransportOptions \<Rightarrow> 'v StreamingRequest \<Rightarrow> 'v list \<Rightarrow> UniversalClientRequest" where
  "stream_client_request core opt req written =
     \<lparr> req_url = sreq_url req,
       req_method = ''POST'',
       req_header = sreq_header req,
       req_body =
         pipe4 (createAsyncIterable written)
           (transformNormalizeMessage (sreq_method req))
           (transformSerializeEnvelope core (getI core (useBinaryFormat opt)) (writeMaxBytes opt))
           (transformCompressEnvelope core (sendCompression opt) (compressMinBytes opt))
           (transformJoinEnvelopes core) \<rparr>"

text \<open>
  The connection object with the variables its methods close over: the writable, the
  client's promise \<open>universalResponsePromise\<close>, the deferred \<open>responseTrailer\<close> and the
  iterator \<open>outputIt\<close> (\<open>None\<close> is \<open>undefined\<close>). \<open>validations\<close> is not a variable of the
  source: it counts the calls of \<open>validateResponseWithCompression\<close>.
\<close>

record ('v, 'o) StreamingConn =
  conn_request :: "'v StreamingRequest"
  writable :: "'v list"
  writable_closed :: bool
  universalResponsePromise :: "UniversalClientResponse promise"
  responseTrailer :: "Headers promise"
  closed :: bool
  outputIt :: "'o generator option"
  validations :: nat

text \<open>\<open>responseHeader: universalResponsePromise.then((r) => r.header)\<close>\<close>

definition responseHeader :: "('v, 'o) StreamingConn \<Rightarrow> Headers promise" where
  "responseHeader conn = promise_then res_header (universalResponsePromise conn)"

text \<open>
  The call function of \<open>stream\<close>: it builds the connection around the promise that
  \<open>opt.client\<close> returns and awaits nothing.
\<close>

definition stream_next ::
  "UniversalClientResponse promise \<Rightarrow> 'v StreamingRequest \<Rightarrow> ('v, 'o) StreamingConn" where
  "stream_next clientPromise req =
     \<lparr> conn_request = req,
       writable = [],
       writable_closed = False,
       universalResponsePromise = clientPromise,
       responseTrailer = Pending,
       closed = False,
       outputIt = None,
       validations = 0 \<rparr>"

definition stream ::
  "('v, 'o) Core \<Rightarrow> TransportOptions \<Rightarrow> UniversalClientResponse promise
     \<Rightarrow> (('v StreamingRequest \<Rightarrow> ('v, 'o) StreamingConn)
          \<Rightarrow> ('v StreamingRequest \<Rightarrow> ('v, 'o) StreamingConn)) list option
     \<Rightarrow> string \<Rightarrow> 'v MethodInfo \<Rightarrow> nat option \<Rightarrow> Headers option \<Rightarrow> ('v, 'o) StreamingConn" where
  "stream core opt clientPromise interceptors service method timeoutMs header =
     runStreaming (stream_request core opt service method timeoutMs header)
       (stream_next clientPromise) interceptors"

text \<open>
  Modelled from the spec: \<open>createWritableIterable\<close> is not among the sources. The spec: "a
  writable lazy sequence is fed by send; closed by close". A write to a closed writable is
  refused (\<open>None\<close>); the spec does not give its error.
\<close>

definition send :: "('v, 'o) StreamingConn \<Rightarrow> 'v \<Rightarrow> ('v, 'o) StreamingConn option" where
  "send conn m =
     (if writable_closed conn then None else Some (conn\<lparr>writable := writable conn @ [m]\<rparr>))"

definition close :: "('v, 'o) StreamingConn \<Rightarrow> ('v, 'o) StreamingConn" where
  "close conn = conn\<lparr>writable_closed := True\<rparr>"

text \<open>The settlement of the client's promise, by the HTTP client.\<close>

definition client_responds :: "UniversalClientResponse \<Rightarrow> ('v, 'o) StreamingConn \<Rightarrow> ('v, 'o) StreamingConn" where
  "client_responds uRes conn =
     conn\<lparr>universalResponsePromise := resolve uRes (universalResponsePromise conn)\<rparr>"

definition client_fails :: "ConnectError \<Rightarrow> ('v, 'o) StreamingConn \<Rightarrow> ('v, 'o) StreamingConn" where
  "client_fails e conn =
     conn\<lparr>universalResponsePromise := reject e (universalResponsePromise conn)\<rparr>"

datatype 'o ReadResult = ReadDone | ReadValue 'o

text \<open>\<open>const r = await outputIt.next()\<close> and the result that \<open>read\<close> builds from it.\<close>

definition read_next ::
  "('v, 'o) Core \<Rightarrow> ('v, 'o) StreamingConn \<Rightarrow> 'o generator
     \<Rightarrow> ('v, 'o) StreamingConn \<times> (ConnectError + 'o ReadResult)" where
  "read_next core conn g =
     (case generator_next (validateTrailer core) g (responseTrailer conn) of
        (rt, g', r) \<Rightarrow>
          (conn\<lparr>responseTrailer := rt, outputIt := Some g'\<rparr>,
           (case r of
              Thrown e \<Rightarrow> Inl e
            | Returned \<Rightarrow> Inr ReadDone
            | Yielded v \<Rightarrow> Inr (ReadValue v))))"

text \<open>
  \<open>read\<close>. It completes with the new state of the connection and either the error it
  rejects with (\<open>Inl\<close>) or its result; it does not complete (\<open>None\<close>) while it awaits a
  pending \<open>universalResponsePromise\<close>. When the validation throws, \<open>outputIt\<close> stays
  undefined. Reads are made one after the other: each has completed before the next is
  called.
\<close>

definition read ::
  "('v, 'o) Core \<Rightarrow> TransportOptions \<Rightarrow> ('v, 'o) StreamingConn
     \<Rightarrow> (('v, 'o) StreamingConn \<times> (ConnectError + 'o ReadResult)) option" where
  "read core opt conn =
     (case outputIt conn of
        Some g \<Rightarrow> Some (read_next core conn g)
      | None \<Rightarrow>
          (case universalResponsePromise conn of
             Pending \<Rightarrow> None
           | Rejected e \<Rightarrow> Some (conn, Inl e)
           | Fulfilled uRes \<Rightarrow>
               (case validateResponseWithCompression core (useBinaryFormat opt)
                       (acceptCompression opt) (res_status uRes) (res_header uRes) of
                  Inl e \<Rightarrow> Some (conn\<lparr>validations := Suc (validations conn)\<rparr>, Inl e)
                | Inr (compression, foundStatus) \<Rightarrow>
                    Some (read_next core (conn\<lparr>validations := Suc (validations conn)\<rparr>)
                            (NotStarted foundStatus
                               (pipe3 (res_body uRes)
                                  (transformSplitEnvelope core (readMaxBytes opt))
                                  (transformDecompressEnvelope core compression (readMaxBytes opt))
                                  (transformParseEnvelope core (getO core (useBinaryFormat opt))
                                     (trailerFlag core) (createTrailerSerialization core))))))))"

text \<open>\<open>n\<close> calls of \<open>read\<close>, one after the other, with their outcomes in order.\<close>

fun reads ::
  "('v, 'o) Core \<Rightarrow> TransportOptions \<Rightarrow> nat \<Rightarrow> ('v, 'o) StreamingConn
     \<Rightarrow> (('v, 'o) StreamingConn \<times> (ConnectError + 'o ReadResult) list) option" where
  "reads core opt 0 conn = Some (conn, [])"
| "reads core opt (Suc n) conn =
     (case read core opt conn of
        None \<Rightarrow> None
      | Some (conn', r) \<Rightarrow>
          (case reads core opt n conn' of
             None \<Rightarrow> None
           | Some (conn'', rs) \<Rightarrow> Some (conn'', r # rs)))"

text \<open>
  What may happen to a connection, and a run of such events. A \<open>read\<close> that cannot complete
  yet and a refused \<open>send\<close> leave the connection as it is.
\<close>

datatype 'v ConnEvent =
    DoSend 'v | DoClose | DoRead | ClientResponds UniversalClientResponse | ClientFails ConnectError

fun conn_event ::
  "('v, 'o) Core \<Rightarrow> TransportOptions \<Rightarrow> 'v ConnEvent \<Rightarrow> ('v, 'o) StreamingConn \<Rightarrow> ('v, 'o) StreamingConn" where
  "conn_event core opt (DoSend m) conn = (case send conn m of None \<Rightarrow> conn | Some conn' \<Rightarrow> conn')"
| "conn_event core opt DoClose conn = close conn"
| "conn_event core opt DoRead conn = (case read core opt conn of None \<Rightarrow> conn | Some (conn', r) \<Rightarrow> conn')"
| "conn_event core opt (ClientResponds uRes) conn = client_responds uRes conn"
| "conn_event core opt (ClientFails e) conn = client_fails e conn"

fun run ::
  "('v, 'o) Core \<Rightarrow> TransportOptions \<Rightarrow> 'v ConnEvent list \<Rightarrow> ('v, 'o) StreamingConn \<Rightarrow> ('v, 'o) StreamingConn" where
  "run core opt [] conn = conn"
| "run core opt (ev # evs) conn = run core opt evs (conn_event core opt ev conn)"

section \<open>A concrete instance\<close>

text \<open>
  Small stand-ins for the imported functions, for evaluating the transport on concrete
  responses. A body chunk is one envelope: its first byte is the flags, the rest the
  payload. A message is a number, serialized as that many zero bytes. A trailer envelope
  with an empty payload carries \<open>grpc-status: 0\<close>, any other \<open>grpc-status: 8\<close>. The
  validation of a response rejects every HTTP status but 200, throws the error of a non-zero
  \<open>grpc-status\<close> header and reports \<open>foundStatus\<close> for \<open>grpc-status: 0\<close>.
\<close>

definition ex_method :: "nat MethodInfo" where
  "ex_method = \<lparr> method_name = ''Say'', I_instanceof = (\<lambda>v. v < 100), I_new = (\<lambda>v. v mod 100) \<rparr>"

definition ex_validateTrailer :: "Headers \<Rightarrow> ConnectError option" where
  "ex_validateTrailer h =
     (if map_of h ''grpc-status'' = Some ''0'' then None
      else Some (new_ConnectError ''rate limited'' (Some ErrorCode_ResourceExhausted) None))"

definition ex_validateResponse ::
  "bool \<Rightarrow> Compression list \<Rightarrow> nat \<Rightarrow> Headers \<Rightarrow> ConnectError + (Compression option \<times> bool)" where
  "ex_validateResponse useBinary accept status' h =
     (if status' \<noteq> 200 then Inl (new_ConnectError ''HTTP error'' None None)
      else (case map_of h ''grpc-status'' of
              None \<Rightarrow> Inr (None, False)
            | Some v \<Rightarrow> (case ex_validateTrailer h of Some e \<Rightarrow> Inl e | None \<Rightarrow> Inr (None, True))))"

definition ex_split :: "nat \<Rightarrow> bytes iterable \<Rightarrow> EnvelopedMessage iterable" where
  "ex_split maxBytes it =
     (map (\<lambda>c. case c of [] \<Rightarrow> \<lparr>flags = 0, data = []\<rparr> | f # d \<Rightarrow> \<lparr>flags = f, data = d\<rparr>) (fst it), snd it)"

definition ex_parse ::
  "nat Serialization \<Rightarrow> 8 word \<Rightarrow> Headers Serialization \<Rightarrow> EnvelopedMessage iterable
     \<Rightarrow> nat ParsedEnvelope iterable" where
  "ex_parse ser flag tser it =
     (map (\<lambda>e. if flags e = flag
               then EndValue [(''grpc-status'', if data e = [] then ''0'' else ''8'')]
               else MessageValue (length (data e))) (fst it), snd it)"

definition ex_serialization :: "nat Serialization" where
  "ex_serialization = ((\<lambda>v. replicate v 0), (\<lambda>b. Inr (length b)))"

definition ex_core :: "(nat, nat) Core" where
  "ex_core =
     \<lparr> getI = (\<lambda>b. ex_serialization),
       getO = (\<lambda>b. ex_serialization),
       createTrailerSerialization = ((\<lambda>h. []), (\<lambda>b. Inr [])),
       trailerFlag = 128,
       createMethodUrl = (\<lambda>base service m. base @ ''/'' @ service @ ''/'' @ m),
       createRequestHeaderWithCompression = (\<lambda>useBinary timeoutMs h accept send'. [(''x-grpc-web'', ''1'')]),
       transformSerializeEnvelope =
         (\<lambda>ser maxBytes it. (map (\<lambda>v. \<lparr>flags = 0, data = fst ser v\<rparr>) (fst it), snd it)),
       transformCompressEnvelope = (\<lambda>c minBytes it. it),
       transformJoinEnvelopes = (\<lambda>it. (map (\<lambda>e. flags e # data e) (fst it), snd it)),
       transformSplitEnvelope = ex_split,
       transformDecompressEnvelope = (\<lambda>c maxBytes it. it),
       transformParseEnvelope = ex_parse,
       validateResponseWithCompression = ex_validateResponse,
       validateTrailer = ex_validateTrailer \<rparr>"

definition ex_opt :: TransportOptions where
  "ex_opt = \<lparr> baseUrl = ''https://example.com'', useBinaryFormat = True, acceptCompression = [],
     sendCompression = None, compressMinBytes = 1024, readMaxBytes = 4096, writeMaxBytes = 4096 \<rparr>"

definition ex_response :: "Headers \<Rightarrow> bytes list \<Rightarrow> UniversalClientResponse" where
  "ex_response h chunks = \<lparr> res_status = 200, res_header = h, res_body = (chunks, None), res_trailer = [] \<rparr>"

definition ex_client ::
  "UniversalClientResponse \<Rightarrow> UniversalClientRequest \<Rightarrow> ConnectError + UniversalClientResponse" where
  "ex_client uRes request = Inr uRes"

definition ex_request :: "nat UnaryRequest" where
  "ex_request = unary_request ex_core ex_opt ''Eliza'' ex_method None None 107"

definition ex_stream_request :: "nat StreamingRequest" where
  "ex_stream_request = stream_request ex_core ex_opt ''Eliza'' ex_method None None"

text \<open>A connection whose HTTP response has arrived and on which nothing was read yet.\<close>

definition ex_conn :: "UniversalClientResponse \<Rightarrow> (nat, nat) StreamingConn" where
  "ex_conn uRes = client_responds uRes (stream_next Pending ex_stream_request)"

text \<open>A response that fails the validation: HTTP status 500.\<close>

definition ex_response_500 :: UniversalClientResponse where
  "ex_response_500 =
     \<lparr> res_status = 500, res_header = [(''content-type'', ''text/html'')],
       res_body = ([], None), res_trailer = [] \<rparr>"

section \<open>Properties of the error type\<close>

lemma Rep_ErrorCode_not_Ok: "Rep_ErrorCode c \<noteq> Ok"
  using Rep_ErrorCode [of c] by simp

lemma StatusCode_cases16:
  "c \<noteq> Ok \<Longrightarrow>
   c \<in> {Canceled, Unknown, InvalidArgument, DeadlineExceeded, NotFound, AlreadyExists,
        PermissionDenied, ResourceExhausted, FailedPrecondition, Aborted, OutOfRange,
        Unimplemented, Internal, Unavailable, DataLoss, Unauthenticated}"
  by (cases c) simp_all

text \<open>
  C9. Every error value that the constructor builds carries one of the sixteen status codes
  other than OK; with no code supplied the code is Unknown, and with no details supplied the
  details are the empty list.
\<close>

theorem ConnectError_code_defined:
  "Rep_ErrorCode (code (new_ConnectError msg code_arg details_arg)) \<in>
     {Canceled, Unknown, InvalidArgument, DeadlineExceeded, NotFound, AlreadyExists,
      PermissionDenied, ResourceExhausted, FailedPrecondition, Aborted, OutOfRange,
      Unimplemented, Internal, Unavailable, DataLoss, Unauthenticated}
   \<and> Rep_ErrorCode (code (new_ConnectError msg code_arg details_arg)) \<noteq> Ok
   \<and> Rep_ErrorCode (code (new_ConnectError msg None details_arg)) = Unknown
   \<and> code (new_ConnectError msg (Some c) details_arg) = c
   \<and> details (new_ConnectError msg code_arg None) = []
   \<and> details (new_ConnectError msg code_arg (Some d)) = d"
  by (simp add: new_ConnectError_def Let_def Rep_ErrorCode_not_Ok StatusCode_cases16
      ErrorCode_Unknown.rep_eq del: insert_iff)

section \<open>Properties of the unary call\<close>

subsection \<open>The loop over the envelopes\<close>

lemma unary_collect_Inr_iff: "unary_collect m t envs err = Inr (t', m') \<longleftrightarrow>
   err = None \<and> (case m of None \<Rightarrow> 0 | Some _ \<Rightarrow> 1) + length (messages_of envs) \<le> (1::nat)
   \<and> (case t of None \<Rightarrow> 0 | Some _ \<Rightarrow> 1) + length (trailers_of envs) \<le> (1::nat)
   \<and> t' = (case trailers_of envs of [] \<Rightarrow> t | x # _ \<Rightarrow> Some x)
   \<and> m' = (case messages_of envs of [] \<Rightarrow> m | x # _ \<Rightarrow> Some x)"
proof (induction m t envs err rule: unary_collect.induct)
  case (1 m t) show ?case by (auto split: option.splits)
next
  case (2 m t e) show ?case by simp
next
  case (3 m t v rest err)
  then show ?case by (cases t) (auto split: list.splits option.splits)
next
  case (4 m t v rest err)
  then show ?case by (cases m) (auto split: list.splits option.splits)
qed

lemma unary_collect_prefix:
  "(case m of None \<Rightarrow> 0 | Some _ \<Rightarrow> 1) + length (messages_of pre) \<le> (1::nat) \<Longrightarrow>
   (case t of None \<Rightarrow> 0 | Some _ \<Rightarrow> 1) + length (trailers_of pre) \<le> (1::nat) \<Longrightarrow>
   unary_collect m t (pre @ rest) err =
   unary_collect (case messages_of pre of [] \<Rightarrow> m | x # _ \<Rightarrow> Some x)
     (case trailers_of pre of [] \<Rightarrow> t | x # _ \<Rightarrow> Some x) rest err"
proof (induction pre arbitrary: m t)
  case Nil
  show ?case by simp
next
  case (Cons env pre)
  show ?case
  proof (cases env)
    case (EndValue v)
    with Cons.prems have t: "t = None" and len: "length (trailers_of pre) = 0"
      by (auto split: option.splits)
    from Cons.prems EndValue t len show ?thesis
      using Cons.IH [of m "Some v"] by simp
  next
    case (MessageValue v)
    with Cons.prems have m: "m = None" and len: "length (messages_of pre) = 0"
      by (auto split: option.splits)
    from Cons.prems MessageValue m len show ?thesis
      using Cons.IH [of "Some v" t] by simp
  qed
qed

lemma unary_receive_envs:
  assumes "validateResponseWithCompression core (useBinaryFormat opt) (acceptCompression opt)
             (res_status uRes) (res_header uRes) = Inr (compression, foundStatus)"
    and "response_envelopes core opt compression (res_body uRes) = (envs, err)"
  shows "unary_receive core opt uRes =
     (case unary_collect None None envs err of
        Inl e \<Rightarrow> Inl e
      | Inr (trailer, message') \<Rightarrow>
          (case trailer of
             None \<Rightarrow> Inl (new_ConnectError ''protocol error: missing trailer''
                            (Some ErrorCode_InvalidArgument) None)
           | Some t \<Rightarrow>
               (case validateTrailer core t of
                  Some e \<Rightarrow> Inl e
                | None \<Rightarrow>
                    (case message' of
                       None \<Rightarrow> Inl (new_ConnectError
                                      ''protocol error: missing output message for unary method''
                                      (Some ErrorCode_InvalidArgument) None)
                     | Some m \<Rightarrow>
                         Inr \<lparr> ures_header = res_header uRes, ures_message = m, ures_trailer = t \<rparr>))))"
  using assms
  by (simp add: unary_receive_def response_envelopes_def pipeTo3_def pipe3_def unary_sink_def)

subsection \<open>The instance evaluated\<close>

lemma ex_client_request: "ex_client uRes (unary_client_request ex_core ex_opt ex_request) = Inr uRes"
  by (simp add: ex_client_def)

lemma ex_valid_plain:
  "validateResponseWithCompression ex_core (useBinaryFormat ex_opt) (acceptCompression ex_opt)
     (res_status (ex_response [] chunks)) (res_header (ex_response [] chunks)) = Inr (None, False)"
  by (simp add: ex_core_def ex_response_def ex_validateResponse_def)

lemma ex_valid_trailers_only:
  "validateResponseWithCompression ex_core (useBinaryFormat ex_opt) (acceptCompression ex_opt)
     (res_status (ex_response [(''grpc-status'', ''0'')] chunks))
     (res_header (ex_response [(''grpc-status'', ''0'')] chunks)) = Inr (None, True)"
  by (simp add: ex_core_def ex_response_def ex_validateResponse_def ex_validateTrailer_def)

lemma ex_envelopes:
  "response_envelopes ex_core ex_opt None (res_body (ex_response h chunks)) =
     (map (\<lambda>c. case c of
                 [] \<Rightarrow> MessageValue 0
               | f # d \<Rightarrow> if f = 128
                          then EndValue [(''grpc-status'', if d = [] then ''0'' else ''8'')]
                          else MessageValue (length d)) chunks, None)"
  by (simp add: response_envelopes_def pipe3_def ex_core_def ex_response_def ex_split_def
      ex_parse_def split: list.splits)

lemma ex_validateTrailer_ok: "validateTrailer ex_core [(''grpc-status'', ''0'')] = None"
  by (simp add: ex_core_def ex_validateTrailer_def)

lemma ex_valid_status8:
  "validateResponseWithCompression ex_core (useBinaryFormat ex_opt) (acceptCompression ex_opt)
     (res_status (ex_response [(''grpc-status'', ''8'')] chunks))
     (res_header (ex_response [(''grpc-status'', ''8'')] chunks)) =
   Inl (new_ConnectError ''rate limited'' (Some ErrorCode_ResourceExhausted) None)"
  by (simp add: ex_core_def ex_response_def ex_validateResponse_def ex_validateTrailer_def)

subsection \<open>One message and one trailer\<close>

text \<open>
  C2. Take a unary call whose HTTP response has arrived and passed the validation, and whose
  body parses into the envelopes \<open>envs\<close> without an error of the pipeline. The call succeeds
  exactly when \<open>envs\<close> holds one message envelope and one trailer envelope whose validation
  passes, in either order, and it then returns that message and that trailer. The loop stops
  at the first violation: a second trailer envelope (after at most one message) fails with
  InvalidArgument "protocol error: received extra trailer", a second message envelope (after
  at most one trailer) with "protocol error: received extra output message for unary
  method"; a body with no trailer envelope and at most one message fails with "protocol
  error: missing trailer", and a body with one valid trailer and no message with "protocol
  error: missing output message for unary method".
\<close>

theorem unary_one_message_one_trailer:
  assumes client: "client (unary_client_request core opt req) = Inr uRes"
    and valid: "validateResponseWithCompression core (useBinaryFormat opt) (acceptCompression opt)
             (res_status uRes) (res_header uRes) = Inr (compression, foundStatus)"
    and body: "response_envelopes core opt compression (res_body uRes) = (envs, None)"
  shows "(unary_next core opt client req = Inr res \<longleftrightarrow>
            (\<exists>m t. messages_of envs = [m] \<and> trailers_of envs = [t] \<and> validateTrailer core t = None
               \<and> res = \<lparr> ures_header = res_header uRes, ures_message = m, ures_trailer = t \<rparr>))
     \<and> ((envs = [MessageValue m1, EndValue t1] \<or> envs = [EndValue t1, MessageValue m1])
           \<and> validateTrailer core t1 = None \<longrightarrow>
         unary_next core opt client req =
           Inr \<lparr> ures_header = res_header uRes, ures_message = m1, ures_trailer = t1 \<rparr>)
     \<and> (envs = pre2 @ EndValue t2 # rest2 \<and> length (trailers_of pre2) = 1
           \<and> length (messages_of pre2) \<le> 1 \<longrightarrow>
         unary_next core opt client req =
           Inl (new_ConnectError ''protocol error: received extra trailer''
                  (Some ErrorCode_InvalidArgument) None))
     \<and> (envs = pre3 @ MessageValue m3 # rest3 \<and> length (messages_of pre3) = 1
           \<and> length (trailers_of pre3) \<le> 1 \<longrightarrow>
         unary_next core opt client req =
           Inl (new_ConnectError ''protocol error: received extra output message for unary method''
                  (Some ErrorCode_InvalidArgument) None))
     \<and> (trailers_of envs = [] \<and> length (messages_of envs) \<le> 1 \<longrightarrow>
         unary_next core opt client req =
           Inl (new_ConnectError ''protocol error: missing trailer''
                  (Some ErrorCode_InvalidArgument) None))
     \<and> (messages_of envs = [] \<and> trailers_of envs = [t5] \<and> validateTrailer core t5 = None \<longrightarrow>
         unary_next core opt client req =
           Inl (new_ConnectError ''protocol error: missing output message for unary method''
                  (Some ErrorCode_InvalidArgument) None))"
proof -
  let ?out = "unary_next core opt client req"
  let ?col = "unary_collect None None envs None"
  have out: "?out =
     (case ?col of
        Inl e \<Rightarrow> Inl e
      | Inr (trailer, message') \<Rightarrow>
          (case trailer of
             None \<Rightarrow> Inl (new_ConnectError ''protocol error: missing trailer''
                            (Some ErrorCode_InvalidArgument) None)
           | Some t \<Rightarrow>
               (case validateTrailer core t of
                  Some e \<Rightarrow> Inl e
                | None \<Rightarrow>
                    (case message' of
                       None \<Rightarrow> Inl (new_ConnectError
                                      ''protocol error: missing output message for unary method''
                                      (Some ErrorCode_InvalidArgument) None)
                     | Some m \<Rightarrow>
                         Inr \<lparr> ures_header = res_header uRes, ures_message = m, ures_trailer = t \<rparr>))))"
    using client unary_receive_envs [OF valid body] by (simp add: unary_next_def)
  have ok: "\<And>m t. messages_of envs = [m] \<Longrightarrow> trailers_of envs = [t] \<Longrightarrow> ?col = Inr (Some t, Some m)"
    by (simp add: unary_collect_Inr_iff)
  have c1: "?out = Inr res \<longleftrightarrow>
            (\<exists>m t. messages_of envs = [m] \<and> trailers_of envs = [t] \<and> validateTrailer core t = None
               \<and> res = \<lparr> ures_header = res_header uRes, ures_message = m, ures_trailer = t \<rparr>)"
  proof
    assume r: "?out = Inr res"
    then obtain tr ms where col: "?col = Inr (tr, ms)"
      by (auto simp: out split: sum.splits)
    with r obtain t m where tm: "tr = Some t" "ms = Some m" "validateTrailer core t = None"
      "res = \<lparr> ures_header = res_header uRes, ures_message = m, ures_trailer = t \<rparr>"
      by (auto simp: out split: option.splits)
    from col tm have "messages_of envs = [m]" "trailers_of envs = [t]"
      by (auto simp: unary_collect_Inr_iff split: list.splits)
    with tm show "\<exists>m t. messages_of envs = [m] \<and> trailers_of envs = [t] \<and> validateTrailer core t = None
               \<and> res = \<lparr> ures_header = res_header uRes, ures_message = m, ures_trailer = t \<rparr>"
      by blast
  next
    assume "\<exists>m t. messages_of envs = [m] \<and> trailers_of envs = [t] \<and> validateTrailer core t = None
               \<and> res = \<lparr> ures_header = res_header uRes, ures_message = m, ures_trailer = t \<rparr>"
    then show "?out = Inr res"
      by (auto simp: out ok)
  qed
  have c2: "(envs = [MessageValue m1, EndValue t1] \<or> envs = [EndValue t1, MessageValue m1])
           \<and> validateTrailer core t1 = None \<longrightarrow>
         ?out = Inr \<lparr> ures_header = res_header uRes, ures_message = m1, ures_trailer = t1 \<rparr>"
    by (auto simp: out)
  have c3: "envs = pre2 @ EndValue t2 # rest2 \<and> length (trailers_of pre2) = 1
           \<and> length (messages_of pre2) \<le> 1 \<longrightarrow>
         ?out = Inl (new_ConnectError ''protocol error: received extra trailer''
                  (Some ErrorCode_InvalidArgument) None)"
  proof (intro impI, elim conjE)
    assume e: "envs = pre2 @ EndValue t2 # rest2" and t: "length (trailers_of pre2) = 1"
      and m: "length (messages_of pre2) \<le> 1"
    from t obtain x where x: "trailers_of pre2 = [x]"
      by (cases "trailers_of pre2") auto
    have "?col = Inl (new_ConnectError ''protocol error: received extra trailer''
                  (Some ErrorCode_InvalidArgument) None)"
      unfolding e using unary_collect_prefix [of None pre2 None "EndValue t2 # rest2" None] t m x
      by simp
    then show "?out = Inl (new_ConnectError ''protocol error: received extra trailer''
                  (Some ErrorCode_InvalidArgument) None)"
      by (simp add: out)
  qed
  have c4: "envs = pre3 @ MessageValue m3 # rest3 \<and> length (messages_of pre3) = 1
           \<and> length (trailers_of pre3) \<le> 1 \<longrightarrow>
         ?out = Inl (new_ConnectError ''protocol error: received extra output message for unary method''
                  (Some ErrorCode_InvalidArgument) None)"
  proof (intro impI, elim conjE)
    assume e: "envs = pre3 @ MessageValue m3 # rest3" and m: "length (messages_of pre3) = 1"
      and t: "length (trailers_of pre3) \<le> 1"
    from m obtain x where x: "messages_of pre3 = [x]"
      by (cases "messages_of pre3") auto
    have "?col = Inl (new_ConnectError ''protocol error: received extra output message for unary method''
                  (Some ErrorCode_InvalidArgument) None)"
      unfolding e using unary_collect_prefix [of None pre3 None "MessageValue m3 # rest3" None] t m x
      by simp
    then show "?out = Inl (new_ConnectError ''protocol error: received extra output message for unary method''
                  (Some ErrorCode_InvalidArgument) None)"
      by (simp add: out)
  qed
  have c5: "trailers_of envs = [] \<and> length (messages_of envs) \<le> 1 \<longrightarrow>
         ?out = Inl (new_ConnectError ''protocol error: missing trailer''
                  (Some ErrorCode_InvalidArgument) None)"
  proof (intro impI, elim conjE)
    assume t: "trailers_of envs = []" and m: "length (messages_of envs) \<le> 1"
    then have "?col = Inr (None, case messages_of envs of [] \<Rightarrow> None | x # _ \<Rightarrow> Some x)"
      by (simp add: unary_collect_Inr_iff)
    then show "?out = Inl (new_ConnectError ''protocol error: missing trailer''
                  (Some ErrorCode_InvalidArgument) None)"
      by (simp add: out)
  qed
  have c6: "messages_of envs = [] \<and> trailers_of envs = [t5] \<and> validateTrailer core t5 = None \<longrightarrow>
         ?out = Inl (new_ConnectError ''protocol error: missing output message for unary method''
                  (Some ErrorCode_InvalidArgument) None)"
  proof (intro impI, elim conjE)
    assume m: "messages_of envs = []" and t: "trailers_of envs = [t5]" and v: "validateTrailer core t5 = None"
    then have "?col = Inr (Some t5, None)"
      by (simp add: unary_collect_Inr_iff)
    with v show "?out = Inl (new_ConnectError ''protocol error: missing output message for unary method''
                  (Some ErrorCode_InvalidArgument) None)"
      by (simp add: out)
  qed
  from c1 c2 c3 c4 c5 c6 show ?thesis by blast
qed

text \<open>The theorem at six bodies of the instance: both orders, and each violation.\<close>

theorem unary_one_message_one_trailer_witness:
  "unary_next ex_core ex_opt (ex_client (ex_response [] [ [0, 1, 2], [128] ])) ex_request =
     Inr \<lparr> ures_header = [], ures_message = 2, ures_trailer = [(''grpc-status'', ''0'')] \<rparr>
   \<and> unary_next ex_core ex_opt (ex_client (ex_response [] [ [128], [0, 1, 2] ])) ex_request =
     Inr \<lparr> ures_header = [], ures_message = 2, ures_trailer = [(''grpc-status'', ''0'')] \<rparr>
   \<and> unary_next ex_core ex_opt (ex_client (ex_response [] [ [0, 1, 2], [128], [128] ])) ex_request =
     Inl (new_ConnectError ''protocol error: received extra trailer''
            (Some ErrorCode_InvalidArgument) None)
   \<and> unary_next ex_core ex_opt (ex_client (ex_response [] [ [0, 1, 2], [0, 7], [128] ])) ex_request =
     Inl (new_ConnectError ''protocol error: received extra output message for unary method''
            (Some ErrorCode_InvalidArgument) None)
   \<and> unary_next ex_core ex_opt (ex_client (ex_response [] [ [0, 1, 2] ])) ex_request =
     Inl (new_ConnectError ''protocol error: missing trailer''
            (Some ErrorCode_InvalidArgument) None)
   \<and> unary_next ex_core ex_opt (ex_client (ex_response [] [ [128] ])) ex_request =
     Inl (new_ConnectError ''protocol error: missing output message for unary method''
            (Some ErrorCode_InvalidArgument) None)"
proof -
  have 1: "unary_next ex_core ex_opt (ex_client (ex_response [] [ [0, 1, 2], [128] ])) ex_request =
     Inr \<lparr> ures_header = [], ures_message = 2, ures_trailer = [(''grpc-status'', ''0'')] \<rparr>"
    using unary_one_message_one_trailer [where client = "ex_client (ex_response [] [ [0, 1, 2], [128] ])" and core = ex_core
        and opt = ex_opt and req = ex_request and uRes = "ex_response [] [ [0, 1, 2], [128] ]" and ?m1.0 = 2 and ?t1.0 = "[(''grpc-status'', ''0'')]",
        OF ex_client_request ex_valid_plain ex_envelopes] ex_validateTrailer_ok
    by (simp add: ex_response_def)
  have 2: "unary_next ex_core ex_opt (ex_client (ex_response [] [ [128], [0, 1, 2] ])) ex_request =
     Inr \<lparr> ures_header = [], ures_message = 2, ures_trailer = [(''grpc-status'', ''0'')] \<rparr>"
    using unary_one_message_one_trailer [where client = "ex_client (ex_response [] [ [128], [0, 1, 2] ])" and core = ex_core
        and opt = ex_opt and req = ex_request and uRes = "ex_response [] [ [128], [0, 1, 2] ]" and ?m1.0 = 2 and ?t1.0 = "[(''grpc-status'', ''0'')]",
        OF ex_client_request ex_valid_plain ex_envelopes] ex_validateTrailer_ok
    by (simp add: ex_response_def)
  have 3: "unary_next ex_core ex_opt (ex_client (ex_response [] [ [0, 1, 2], [128], [128] ])) ex_request =
     Inl (new_ConnectError ''protocol error: received extra trailer''
            (Some ErrorCode_InvalidArgument) None)"
    using unary_one_message_one_trailer [where client = "ex_client (ex_response [] [ [0, 1, 2], [128], [128] ])" and core = ex_core
        and opt = ex_opt and req = ex_request and uRes = "ex_response [] [ [0, 1, 2], [128], [128] ]" and ?pre2.0 = "[MessageValue 2, EndValue [(''grpc-status'', ''0'')] ]"
        and ?t2.0 = "[(''grpc-status'', ''0'')]" and ?rest2.0 = "[]",
        OF ex_client_request ex_valid_plain ex_envelopes]
    by simp
  have 4: "unary_next ex_core ex_opt (ex_client (ex_response [] [ [0, 1, 2], [0, 7], [128] ])) ex_request =
     Inl (new_ConnectError ''protocol error: received extra output message for unary method''
            (Some ErrorCode_InvalidArgument) None)"
    using unary_one_message_one_trailer [where client = "ex_client (ex_response [] [ [0, 1, 2], [0, 7], [128] ])" and core = ex_core
        and opt = ex_opt and req = ex_request and uRes = "ex_response [] [ [0, 1, 2], [0, 7], [128] ]" and ?pre3.0 = "[MessageValue 2]" and ?m3.0 = 1
        and ?rest3.0 = "[EndValue [(''grpc-status'', ''0'')] ]",
        OF ex_client_request ex_valid_plain ex_envelopes]
    by simp
  have 5: "unary_next ex_core ex_opt (ex_client (ex_response [] [ [0, 1, 2] ])) ex_request =
     Inl (new_ConnectError ''protocol error: missing trailer''
            (Some ErrorCode_InvalidArgument) None)"
    using unary_one_message_one_trailer [where client = "ex_client (ex_response [] [ [0, 1, 2] ])" and core = ex_core
        and opt = ex_opt and req = ex_request and uRes = "ex_response [] [ [0, 1, 2] ]",
        OF ex_client_request ex_valid_plain ex_envelopes]
    by simp
  have 6: "unary_next ex_core ex_opt (ex_client (ex_response [] [ [128] ])) ex_request =
     Inl (new_ConnectError ''protocol error: missing output message for unary method''
            (Some ErrorCode_InvalidArgument) None)"
    using unary_one_message_one_trailer [where client = "ex_client (ex_response [] [ [128] ])" and core = ex_core
        and opt = ex_opt and req = ex_request and uRes = "ex_response [] [ [128] ]" and ?t5.0 = "[(''grpc-status'', ''0'')]",
        OF ex_client_request ex_valid_plain ex_envelopes] ex_validateTrailer_ok
    by simp
  from 1 2 3 4 5 6 show ?thesis by blast
qed

subsection \<open>A trailers-only response to a unary call\<close>

text \<open>
  The unary call does not read \<open>foundStatus\<close>. A response with \<open>grpc-status: 0\<close> in its
  headers and an empty body passes the validation with \<open>foundStatus = true\<close>; the call then
  finds no trailer envelope and fails with "protocol error: missing trailer", not with
  "missing output message".
\<close>

theorem unary_found_status_counterexample:
  "validateResponseWithCompression ex_core (useBinaryFormat ex_opt) (acceptCompression ex_opt)
     200 [(''grpc-status'', ''0'')] = Inr (None, True)
   \<and> unary_next ex_core ex_opt (ex_client (ex_response [(''grpc-status'', ''0'')] [])) ex_request =
       Inl (new_ConnectError ''protocol error: missing trailer'' (Some ErrorCode_InvalidArgument) None)
   \<and> unary_next ex_core ex_opt (ex_client (ex_response [(''grpc-status'', ''0'')] [])) ex_request \<noteq>
       Inl (new_ConnectError ''protocol error: missing output message for unary method''
              (Some ErrorCode_InvalidArgument) None)"
  by (simp add: unary_next_def unary_receive_def ex_client_def ex_core_def ex_response_def ex_opt_def
      ex_validateResponse_def ex_validateTrailer_def pipeTo3_def ex_split_def ex_parse_def
      unary_sink_def new_ConnectError_def)

text \<open>
  C4, as amended. For a unary call whose response validation reports \<open>foundStatus = true\<close>
  and whose body holds no envelope, the call fails with InvalidArgument "protocol error:
  missing trailer". When the validation of the response itself throws an error, as for a
  non-zero \<open>grpc-status\<close> in the headers, the call fails with that error.
\<close>

theorem unary_trailers_only:
  assumes client: "client (unary_client_request core opt req) = Inr uRes"
  shows "(validateResponseWithCompression core (useBinaryFormat opt) (acceptCompression opt)
             (res_status uRes) (res_header uRes) = Inr (compression, True)
          \<and> response_envelopes core opt compression (res_body uRes) = ([], None) \<longrightarrow>
          unary_next core opt client req =
            Inl (new_ConnectError ''protocol error: missing trailer''
                   (Some ErrorCode_InvalidArgument) None))
       \<and> (validateResponseWithCompression core (useBinaryFormat opt) (acceptCompression opt)
             (res_status uRes) (res_header uRes) = Inl e \<longrightarrow>
          unary_next core opt client req = Inl e)"
proof (intro conjI impI)
  assume "validateResponseWithCompression core (useBinaryFormat opt) (acceptCompression opt)
             (res_status uRes) (res_header uRes) = Inr (compression, True)
          \<and> response_envelopes core opt compression (res_body uRes) = ([], None)"
  then show "unary_next core opt client req =
            Inl (new_ConnectError ''protocol error: missing trailer''
                   (Some ErrorCode_InvalidArgument) None)"
    using client unary_receive_envs [of core opt uRes compression True "[]" None]
    by (simp add: unary_next_def)
next
  assume "validateResponseWithCompression core (useBinaryFormat opt) (acceptCompression opt)
             (res_status uRes) (res_header uRes) = Inl e"
  then show "unary_next core opt client req = Inl e"
    using client by (simp add: unary_next_def unary_receive_def)
qed

text \<open>The theorem at the instance, for \<open>grpc-status: 0\<close> and for \<open>grpc-status: 8\<close>.\<close>

theorem unary_trailers_only_witness:
  "unary_next ex_core ex_opt (ex_client (ex_response [(''grpc-status'', ''0'')] [])) ex_request =
     Inl (new_ConnectError ''protocol error: missing trailer'' (Some ErrorCode_InvalidArgument) None)
   \<and> unary_next ex_core ex_opt (ex_client (ex_response [(''grpc-status'', ''8'')] [])) ex_request =
     Inl (new_ConnectError ''rate limited'' (Some ErrorCode_ResourceExhausted) None)"
proof -
  have 1: "unary_next ex_core ex_opt (ex_client (ex_response [(''grpc-status'', ''0'')] [])) ex_request =
     Inl (new_ConnectError ''protocol error: missing trailer'' (Some ErrorCode_InvalidArgument) None)"
    using unary_trailers_only [where client = "ex_client (ex_response [(''grpc-status'', ''0'')] [])"
        and core = ex_core and opt = ex_opt and req = ex_request
        and uRes = "ex_response [(''grpc-status'', ''0'')] []" and compression = None,
        OF ex_client_request]
      ex_valid_trailers_only [of "[]"] ex_envelopes [of "[(''grpc-status'', ''0'')]" "[]"]
    by simp
  have 2: "unary_next ex_core ex_opt (ex_client (ex_response [(''grpc-status'', ''8'')] [])) ex_request =
     Inl (new_ConnectError ''rate limited'' (Some ErrorCode_ResourceExhausted) None)"
    using unary_trailers_only [where client = "ex_client (ex_response [(''grpc-status'', ''8'')] [])"
        and core = ex_core and opt = ex_opt and req = ex_request
        and uRes = "ex_response [(''grpc-status'', ''8'')] []"
        and e = "new_ConnectError ''rate limited'' (Some ErrorCode_ResourceExhausted) None",
        OF ex_client_request]
      ex_valid_status8 [of "[]"]
    by simp
  from 1 2 show ?thesis by blast
qed

section \<open>Properties of the streaming call\<close>

subsection \<open>Single reads\<close>

lemma read_started: "outputIt conn = Some g \<Longrightarrow> read core opt conn = Some (read_next core conn g)"
  by (simp add: read_def)

lemma read_first:
  "outputIt conn = None \<Longrightarrow> universalResponsePromise conn = Fulfilled uRes \<Longrightarrow>
   validateResponseWithCompression core (useBinaryFormat opt) (acceptCompression opt)
     (res_status uRes) (res_header uRes) = Inr (compression, foundStatus) \<Longrightarrow>
   read core opt conn =
     Some (read_next core (conn\<lparr>validations := Suc (validations conn)\<rparr>)
             (NotStarted foundStatus (response_envelopes core opt compression (res_body uRes))))"
  by (simp add: read_def response_envelopes_def)

lemma read_next_NotStarted_False:
  "read_next core conn (NotStarted False E) = read_next core conn (InLoop False E)"
  by (cases E) (simp add: read_next_def)

lemma read_next_Completed:
  "read_next core conn Completed =
     (conn\<lparr>responseTrailer := responseTrailer conn, outputIt := Some Completed\<rparr>, Inr ReadDone)"
  by (simp add: read_next_def)

lemma read_next_message:
  "read_next core conn (InLoop False (MessageValue m # envs, err)) =
     (conn\<lparr>responseTrailer := responseTrailer conn, outputIt := Some (InLoop False (envs, err))\<rparr>,
      Inr (ReadValue m))"
  by (simp add: read_next_def)

lemma read_next_bad_trailer:
  "validateTrailer core t = Some e \<Longrightarrow>
   read_next core conn (InLoop False (EndValue t # envs, err)) =
     (conn\<lparr>responseTrailer := responseTrailer conn, outputIt := Some Completed\<rparr>, Inl e)"
  by (simp add: read_next_def)

lemma reads_Completed:
  "outputIt conn = Some Completed \<Longrightarrow>
   map_option snd (reads core opt k conn) = Some (replicate k (Inr ReadDone))"
proof (induction k arbitrary: conn)
  case 0
  show ?case by simp
next
  case (Suc k)
  have "outputIt (conn\<lparr>responseTrailer := responseTrailer conn, outputIt := Some Completed\<rparr>) = Some Completed"
    by simp
  from Suc.IH [OF this] Suc.prems show ?case
    by (auto simp: read_started read_next_Completed split: option.splits)
qed

text \<open>A call of \<open>next()\<close> on the generator followed by \<open>n\<close> further reads.\<close>

lemma reads_Suc_started:
  "outputIt conn = Some g \<Longrightarrow>
   reads core opt (Suc n) conn =
     (case read_next core conn g of
        (conn', r) \<Rightarrow>
          (case reads core opt n conn' of
             None \<Rightarrow> None
           | Some (conn'', rs) \<Rightarrow> Some (conn'', r # rs)))"
  by (simp add: read_started split: prod.splits)

lemma reads_status_error_loop:
  assumes "validateTrailer core t = Some e"
  shows "map_option snd
           (case read_next core conn (InLoop False (map MessageValue ms @ EndValue t # rest, err)) of
              (conn', r) \<Rightarrow>
                (case reads core opt (length ms + k) conn' of
                   None \<Rightarrow> None
                 | Some (conn'', rs) \<Rightarrow> Some (conn'', r # rs))) =
         Some (map (\<lambda>m. Inr (ReadValue m)) ms @ Inl e # replicate k (Inr ReadDone))"
proof (induction ms arbitrary: conn)
  case Nil
  have "map_option snd (reads core opt k
          (conn\<lparr>responseTrailer := responseTrailer conn, outputIt := Some Completed\<rparr>)) =
        Some (replicate k (Inr ReadDone))"
    by (rule reads_Completed) simp
  then show ?case
    using assms by (auto simp: read_next_bad_trailer split: option.splits)
next
  case (Cons m ms)
  define c where "c = conn\<lparr>responseTrailer := responseTrailer conn,
                 outputIt := Some (InLoop False (map MessageValue ms @ EndValue t # rest, err))\<rparr>"
  have o: "outputIt c = Some (InLoop False (map MessageValue ms @ EndValue t # rest, err))"
    by (simp add: c_def)
  have first: "read_next core conn
        (InLoop False (MessageValue m # map MessageValue ms @ EndValue t # rest, err)) =
      (c, Inr (ReadValue m))"
    by (simp add: c_def read_next_message)
  have "map_option snd (reads core opt (Suc (length ms + k)) c) =
      Some (map (\<lambda>m. Inr (ReadValue m)) ms @ Inl e # replicate k (Inr ReadDone))"
    using Cons.IH [of c] by (simp only: reads_Suc_started [OF o])
  then obtain c' where "reads core opt (Suc (length ms + k)) c =
      Some (c', map (\<lambda>m. Inr (ReadValue m)) ms @ Inl e # replicate k (Inr ReadDone))"
    by (cases "reads core opt (Suc (length ms + k)) c") auto
  then show ?case
    by (simp add: first del: reads.simps)
qed

lemmas ex_defs = ex_conn_def ex_response_def ex_core_def ex_opt_def ex_validateResponse_def
  ex_validateTrailer_def ex_split_def ex_parse_def client_responds_def stream_next_def
  read_def read_next_def resolve_def reject_def pipe3_def ex_response_500_def

lemma ex_conn_fresh:
  "outputIt (ex_conn uRes) = None \<and> universalResponsePromise (ex_conn uRes) = Fulfilled uRes
   \<and> responseTrailer (ex_conn uRes) = Pending \<and> validations (ex_conn uRes) = 0"
  by (simp add: ex_conn_def client_responds_def stream_next_def resolve_def)

lemma ex_validateTrailer_status8:
  "validateTrailer ex_core [(''grpc-status'', ''8'')] =
     Some (new_ConnectError ''rate limited'' (Some ErrorCode_ResourceExhausted) None)"
  by (simp add: ex_core_def ex_validateTrailer_def)

subsection \<open>A trailer with a non-zero status\<close>

text \<open>
  The body of the instance is one trailer envelope with \<open>grpc-status: 8\<close>. The first
  \<open>read\<close> rejects with the mapped error; the second \<open>read\<close> reports done, since the
  generator has completed; and \<open>responseTrailer\<close> is still pending after both, since
  \<open>validateTrailer\<close> throws before the deferred is touched.
\<close>

theorem stream_status_error_counterexample:
  "map_option snd (reads ex_core ex_opt 2 (ex_conn (ex_response [] [ [128, 1] ]))) =
     Some [Inl (new_ConnectError ''rate limited'' (Some ErrorCode_ResourceExhausted) None),
           Inr ReadDone]
   \<and> map_option (responseTrailer \<circ> fst) (reads ex_core ex_opt 2 (ex_conn (ex_response [] [ [128, 1] ]))) =
     Some Pending"
  by (simp add: ex_defs numeral_2_eq_2)

text \<open>
  C1, as amended. Take a streaming call that is not trailers-only, whose messages are
  followed by a first trailer envelope with a non-zero \<open>grpc-status\<close> (\<open>validateTrailer\<close>
  throws the mapped error \<open>e\<close>). The reads for the messages before the trailer return
  them, the next \<open>read\<close> rejects with \<open>e\<close>, and every \<open>read\<close> after that reports done.
\<close>

theorem stream_status_error_reads:
  assumes it: "outputIt conn = None"
    and res: "universalResponsePromise conn = Fulfilled uRes"
    and valid: "validateResponseWithCompression core (useBinaryFormat opt) (acceptCompression opt)
             (res_status uRes) (res_header uRes) = Inr (compression, False)"
    and body: "response_envelopes core opt compression (res_body uRes) =
             (map MessageValue ms @ EndValue t # rest, err)"
    and status: "validateTrailer core t = Some e"
  shows "map_option snd (reads core opt (length ms + 1 + k) conn) =
         Some (map (\<lambda>m. Inr (ReadValue m)) ms @ Inl e # replicate k (Inr ReadDone))"
proof -
  have "reads core opt (Suc (length ms + k)) conn =
     (case read_next core (conn\<lparr>validations := Suc (validations conn)\<rparr>)
             (InLoop False (map MessageValue ms @ EndValue t # rest, err)) of
        (conn', r) \<Rightarrow>
          (case reads core opt (length ms + k) conn' of
             None \<Rightarrow> None
           | Some (conn'', rs) \<Rightarrow> Some (conn'', r # rs)))"
    by (simp add: read_first [OF it res valid] body read_next_NotStarted_False split: prod.splits)
  then show ?thesis
    using reads_status_error_loop [OF status] by simp
qed

text \<open>The theorem at the instance: two messages, then a trailer with \<open>grpc-status: 8\<close>.\<close>

theorem stream_status_error_reads_witness:
  "map_option snd (reads ex_core ex_opt 4 (ex_conn (ex_response [] [ [0, 1], [0, 1, 1], [128, 1] ]))) =
     Some [Inr (ReadValue 1), Inr (ReadValue 2),
           Inl (new_ConnectError ''rate limited'' (Some ErrorCode_ResourceExhausted) None),
           Inr ReadDone]"
proof -
  let ?R = "ex_response [] [ [0, 1], [0, 1, 1], [128, 1] ]"
  have it: "outputIt (ex_conn ?R) = None"
    and res: "universalResponsePromise (ex_conn ?R) = Fulfilled ?R"
    by (simp_all add: ex_conn_fresh)
  have body: "response_envelopes ex_core ex_opt None (res_body ?R) =
      (map MessageValue [1, 2] @ EndValue [(''grpc-status'', ''8'')] # [], None)"
    by (simp add: ex_envelopes)
  show ?thesis
    using stream_status_error_reads [OF it res ex_valid_plain body ex_validateTrailer_status8, of 1]
    by (simp add: eval_nat_numeral)
qed

subsection \<open>A trailers-only response\<close>

lemma read_trailers_only:
  assumes "outputIt conn = None" and "universalResponsePromise conn = Fulfilled uRes"
    and "validateResponseWithCompression core (useBinaryFormat opt) (acceptCompression opt)
           (res_status uRes) (res_header uRes) = Inr (compression, True)"
    and "response_envelopes core opt compression (res_body uRes) = ([], None)"
  shows "read core opt conn =
           Some (conn\<lparr>validations := Suc (validations conn), outputIt := Some Completed\<rparr>, Inr ReadDone)"
  using assms by (simp add: read_first read_next_def)

text \<open>
  C3. For a streaming call whose validation reports \<open>foundStatus = true\<close> and whose body is
  empty, the first \<open>read\<close> and every later one report done. The claim also has
  \<open>responseTrailer\<close> resolved with the header block; the generator returns without settling
  the deferred, which is evaluated here on a response with \<open>grpc-status: 0\<close> in its headers
  and an empty body: after two reads \<open>responseTrailer\<close> is still pending.
\<close>

theorem stream_trailers_only_trailer_unsettled:
  "validateResponseWithCompression ex_core (useBinaryFormat ex_opt) (acceptCompression ex_opt)
     200 [(''grpc-status'', ''0'')] = Inr (None, True)
   \<and> map_option snd (reads ex_core ex_opt 2 (ex_conn (ex_response [(''grpc-status'', ''0'')] []))) =
       Some [Inr ReadDone, Inr ReadDone]
   \<and> map_option (responseTrailer \<circ> fst)
       (reads ex_core ex_opt 2 (ex_conn (ex_response [(''grpc-status'', ''0'')] []))) = Some Pending"
  by (simp add: ex_defs numeral_2_eq_2)

subsection \<open>Envelopes after the trailer, and a missing trailer\<close>

lemma generator_loop_after_trailer:
  "vt t = None \<Longrightarrow>
   generator_loop vt False (EndValue t # env # rest) err Pending =
     (Fulfilled t, Completed,
      Thrown (new_ConnectError
                (case env of
                   EndValue v \<Rightarrow> ''protocol error: received extra trailer''
                 | MessageValue v \<Rightarrow> ''protocol error: received extra message after trailer'')
                (Some ErrorCode_InvalidArgument) None))"
  by (cases env) (simp_all add: resolve_def reject_def)

text \<open>
  C5. An envelope after the first trailer envelope makes \<open>read\<close> reject with
  InvalidArgument "protocol error: received extra trailer" or "protocol error: received
  extra message after trailer", and a body that ends without a trailer with "protocol error:
  missing trailer". The claim also has \<open>responseTrailer\<close> rejected with that error. For the
  missing trailer it is; after a trailer, the deferred was resolved with the first trailer
  already, and the \<open>reject\<close> that the generator calls changes nothing: evaluated here on the
  bodies trailer-trailer, trailer-message and the empty body.
\<close>

theorem stream_extra_envelope_trailer_stays_resolved:
  "map_option snd (reads ex_core ex_opt 1 (ex_conn (ex_response [] [ [128], [128] ]))) =
     Some [Inl (new_ConnectError ''protocol error: received extra trailer''
                  (Some ErrorCode_InvalidArgument) None)]
   \<and> map_option (responseTrailer \<circ> fst)
       (reads ex_core ex_opt 1 (ex_conn (ex_response [] [ [128], [128] ]))) =
     Some (Fulfilled [(''grpc-status'', ''0'')])
   \<and> map_option snd (reads ex_core ex_opt 1 (ex_conn (ex_response [] [ [128], [0, 1] ]))) =
     Some [Inl (new_ConnectError ''protocol error: received extra message after trailer''
                  (Some ErrorCode_InvalidArgument) None)]
   \<and> map_option (responseTrailer \<circ> fst)
       (reads ex_core ex_opt 1 (ex_conn (ex_response [] [ [128], [0, 1] ]))) =
     Some (Fulfilled [(''grpc-status'', ''0'')])
   \<and> map_option snd (reads ex_core ex_opt 1 (ex_conn (ex_response [] []))) =
     Some [Inl (new_ConnectError ''protocol error: missing trailer''
                  (Some ErrorCode_InvalidArgument) None)]
   \<and> map_option (responseTrailer \<circ> fst) (reads ex_core ex_opt 1 (ex_conn (ex_response [] []))) =
     Some (Rejected (new_ConnectError ''protocol error: missing trailer''
                       (Some ErrorCode_InvalidArgument) None))"
  by (simp add: ex_defs)

subsection \<open>The response header\<close>

text \<open>
  C6. \<open>read\<close> awaits the client's promise before anything else, and \<open>responseHeader\<close> is
  that promise mapped to the header. So whenever a \<open>read\<close> without an iterator (the first
  one) completes, \<open>responseHeader\<close> is settled already: fulfilled with the header of the
  response or, when the HTTP request itself failed, rejected with the error that the \<open>read\<close>
  rejects with.
\<close>

theorem first_read_header_settled:
  assumes "outputIt conn = None" and "read core opt conn = Some (conn', r)"
  shows "(\<exists>uRes. universalResponsePromise conn = Fulfilled uRes
            \<and> responseHeader conn = Fulfilled (res_header uRes)
            \<and> responseHeader conn' = Fulfilled (res_header uRes))
       \<or> (\<exists>e. universalResponsePromise conn = Rejected e \<and> responseHeader conn = Rejected e
            \<and> responseHeader conn' = Rejected e \<and> r = Inl e)"
proof (cases "universalResponsePromise conn")
  case Pending
  with assms show ?thesis by (simp add: read_def)
next
  case (Fulfilled uRes)
  with assms have "universalResponsePromise conn' = Fulfilled uRes"
    by (auto simp: read_def read_next_def split: sum.splits prod.splits)
  with Fulfilled show ?thesis
    by (simp add: responseHeader_def promise_then_def)
next
  case (Rejected e)
  with assms show ?thesis
    by (auto simp: read_def responseHeader_def promise_then_def)
qed

text \<open>The theorem at the instance: the first read returns a message, the header is there.\<close>

theorem first_read_header_settled_witness:
  "map_option snd (read ex_core ex_opt (ex_conn (ex_response [(''date'', ''today'')] [ [0, 1], [128] ]))) =
     Some (Inr (ReadValue 1))
   \<and> responseHeader (ex_conn (ex_response [(''date'', ''today'')] [ [0, 1], [128] ])) =
     Fulfilled [(''date'', ''today'')]"
proof -
  let ?c = "ex_conn (ex_response [(''date'', ''today'')] [ [0, 1], [128] ])"
  have r: "map_option snd (read ex_core ex_opt ?c) = Some (Inr (ReadValue 1))"
    by (simp add: ex_defs)
  then obtain c' where c': "read ex_core ex_opt ?c = Some (c', Inr (ReadValue 1))"
    by (cases "read ex_core ex_opt ?c") auto
  have "outputIt ?c = None"
    by (simp add: ex_conn_fresh)
  from first_read_header_settled [OF this c'] have "responseHeader ?c = Fulfilled [(''date'', ''today'')]"
    by (auto simp: ex_conn_fresh ex_response_def)
  with r show ?thesis by simp
qed

subsection \<open>When the response is validated\<close>

lemma conn_event_validations:
  "ev \<noteq> DoRead \<Longrightarrow> validations (conn_event core opt ev conn) = validations conn"
  by (cases ev) (simp_all add: send_def close_def client_responds_def client_fails_def)

lemma run_without_read:
  "DoRead \<notin> set evs \<Longrightarrow> validations (run core opt evs conn) = validations conn"
  by (induction evs arbitrary: conn) (auto simp: conn_event_validations)

lemma read_started_validations:
  assumes "outputIt conn = Some g" and "read core opt conn = Some (conn', r)"
  shows "validations conn' = validations conn \<and> outputIt conn' \<noteq> None"
  using assms by (auto simp: read_def read_next_def split: prod.splits)

lemma read_unstarted_validations:
  assumes "outputIt conn = None" and "universalResponsePromise conn = Fulfilled uRes"
    and "read core opt conn = Some (conn', r)"
  shows "validations conn' = Suc (validations conn)
       \<and> (case validateResponseWithCompression core (useBinaryFormat opt) (acceptCompression opt)
                 (res_status uRes) (res_header uRes) of
            Inl e \<Rightarrow> outputIt conn' = None \<and> r = Inl e
          | Inr v \<Rightarrow> outputIt conn' \<noteq> None)"
  using assms by (auto simp: read_def read_next_def split: sum.splits prod.splits)

text \<open>
  A response with HTTP status 500 fails the validation. The failed validation leaves
  \<open>outputIt\<close> undefined, so the second \<open>read\<close> validates the response again: two reads,
  two validations.
\<close>

theorem validation_repeated_counterexample:
  "map_option snd (reads ex_core ex_opt 2 (ex_conn ex_response_500)) =
     Some [Inl (new_ConnectError ''HTTP error'' None None),
           Inl (new_ConnectError ''HTTP error'' None None)]
   \<and> map_option (validations \<circ> fst) (reads ex_core ex_opt 1 (ex_conn ex_response_500)) = Some 1
   \<and> map_option (validations \<circ> fst) (reads ex_core ex_opt 2 (ex_conn ex_response_500)) = Some 2"
  by (simp add: ex_defs numeral_2_eq_2)

text \<open>
  C10, as amended. \<open>stream\<close> returns the connection without a validation, whatever the state
  of the client's promise. No event other than \<open>read\<close> validates. A \<open>read\<close> validates
  exactly when no iterator exists yet: the first \<open>read\<close>, and every later one as long as
  each validation before it failed; once a validation has passed, the iterator exists and no
  \<open>read\<close> validates again. \<open>responseHeader\<close> is fulfilled with the header of the response as
  it arrived, whether or not it passes the validation.
\<close>

theorem validation_only_in_read:
  "validations (stream core opt clientPromise None service meth timeoutMs header :: ('v, 'o) StreamingConn) = 0
   \<and> outputIt (stream core opt clientPromise None service meth timeoutMs header :: ('v, 'o) StreamingConn) = None
   \<and> (DoRead \<notin> set evs \<longrightarrow> validations (run core opt evs conn0) = validations conn0)
   \<and> (outputIt conn1 = Some g \<and> read core opt conn1 = Some (conn1', r1) \<longrightarrow>
        validations conn1' = validations conn1 \<and> outputIt conn1' \<noteq> None)
   \<and> (outputIt conn2 = None \<and> universalResponsePromise conn2 = Fulfilled uRes
        \<and> read core opt conn2 = Some (conn2', r2) \<longrightarrow>
        validations conn2' = Suc (validations conn2)
        \<and> (case validateResponseWithCompression core (useBinaryFormat opt) (acceptCompression opt)
                  (res_status uRes) (res_header uRes) of
             Inl e \<Rightarrow> outputIt conn2' = None \<and> r2 = Inl e
           | Inr v \<Rightarrow> outputIt conn2' \<noteq> None))
   \<and> responseHeader (client_responds uRes'
        (stream core opt Pending None service meth timeoutMs header :: ('v, 'o) StreamingConn)) =
      Fulfilled (res_header uRes')"
proof -
  have a: "stream core opt p None service meth timeoutMs header =
      (stream_next p (stream_request core opt service meth timeoutMs header) :: ('v, 'o) StreamingConn)" for p
    by (simp add: stream_def runStreaming_def applyInterceptors_def)
  have b: "DoRead \<notin> set evs \<longrightarrow> validations (run core opt evs conn0) = validations conn0"
    by (simp add: run_without_read)
  have c: "outputIt conn1 = Some g \<and> read core opt conn1 = Some (conn1', r1) \<longrightarrow>
        validations conn1' = validations conn1 \<and> outputIt conn1' \<noteq> None"
    using read_started_validations [of conn1 g core opt conn1' r1] by blast
  have d: "outputIt conn2 = None \<and> universalResponsePromise conn2 = Fulfilled uRes
        \<and> read core opt conn2 = Some (conn2', r2) \<longrightarrow>
        validations conn2' = Suc (validations conn2)
        \<and> (case validateResponseWithCompression core (useBinaryFormat opt) (acceptCompression opt)
                  (res_status uRes) (res_header uRes) of
             Inl e \<Rightarrow> outputIt conn2' = None \<and> r2 = Inl e
           | Inr v \<Rightarrow> outputIt conn2' \<noteq> None)"
    using read_unstarted_validations [of conn2 uRes core opt conn2' r2] by blast
  have e: "responseHeader (client_responds uRes'
        (stream core opt Pending None service meth timeoutMs header :: ('v, 'o) StreamingConn)) =
      Fulfilled (res_header uRes')"
    by (simp add: a stream_next_def client_responds_def responseHeader_def promise_then_def resolve_def)
  have f: "validations (stream core opt clientPromise None service meth timeoutMs header :: ('v, 'o) StreamingConn) = 0
   \<and> outputIt (stream core opt clientPromise None service meth timeoutMs header :: ('v, 'o) StreamingConn) = None"
    by (simp add: a stream_next_def)
  from f b c d e show ?thesis by blast
qed

text \<open>The theorem at the instance, with the response of status 500.\<close>

theorem validation_only_in_read_witness:
  "validations (run ex_core ex_opt [DoSend 3, ClientResponds ex_response_500, DoClose]
      (stream ex_core ex_opt Pending None ''Eliza'' ex_method None None)) = 0
   \<and> map_option (validations \<circ> fst) (read ex_core ex_opt (ex_conn ex_response_500)) = Some 1
   \<and> map_option (outputIt \<circ> fst) (read ex_core ex_opt (ex_conn ex_response_500)) = Some None
   \<and> responseHeader (client_responds ex_response_500
        (stream ex_core ex_opt Pending None ''Eliza'' ex_method None None :: (nat, nat) StreamingConn)) =
      Fulfilled [(''content-type'', ''text/html'')]"
proof -
  let ?s = "stream ex_core ex_opt Pending None ''Eliza'' ex_method None None :: (nat, nat) StreamingConn"
  note v = validation_only_in_read [where core = ex_core and opt = ex_opt and clientPromise = Pending
      and service = "''Eliza''" and meth = ex_method and timeoutMs = None and header = None
      and evs = "[DoSend 3, ClientResponds ex_response_500, DoClose]" and ?conn0.0 = ?s
      and ?conn2.0 = "ex_conn ex_response_500" and uRes = ex_response_500 and uRes' = ex_response_500]
  have 1: "validations (run ex_core ex_opt [DoSend 3, ClientResponds ex_response_500, DoClose] ?s) = 0"
    using v by simp
  obtain c r where cr: "read ex_core ex_opt (ex_conn ex_response_500) = Some (c, r)"
    by (cases "read ex_core ex_opt (ex_conn ex_response_500)") (auto simp: ex_defs)
  have bad: "validateResponseWithCompression ex_core (useBinaryFormat ex_opt) (acceptCompression ex_opt)
      (res_status ex_response_500) (res_header ex_response_500) = Inl (new_ConnectError ''HTTP error'' None None)"
    by (simp add: ex_core_def ex_validateResponse_def ex_response_500_def)
  from v cr have "validations c = Suc (validations (ex_conn ex_response_500)) \<and> outputIt c = None"
    by (simp add: ex_conn_fresh bad)
  with cr have 2: "map_option (validations \<circ> fst) (read ex_core ex_opt (ex_conn ex_response_500)) = Some 1
     \<and> map_option (outputIt \<circ> fst) (read ex_core ex_opt (ex_conn ex_response_500)) = Some None"
    by (simp add: ex_conn_fresh)
  have 3: "responseHeader (client_responds ex_response_500 ?s) = Fulfilled [(''content-type'', ''text/html'')]"
    using v by (simp add: ex_response_500_def)
  from 1 2 3 show ?thesis by blast
qed

section \<open>Properties of the pipelines\<close>

lemma unary_without_interceptors:
  "unary core opt client None service method timeoutMs header m =
     unary_next core opt client (unary_request core opt service method timeoutMs header m)"
  by (simp add: unary_def runUnary_def applyInterceptors_def)

lemma normalizeMessage_fun:
  "normalizeMessage method = (\<lambda>m. if I_instanceof method m then m else I_new method m)"
  by (simp add: fun_eq_iff normalizeMessage_def)

lemma replicate_numeral_unfold:
  "replicate (numeral k) x = x # replicate (pred_numeral k) x"
  by (simp add: numeral_eq_Suc)

text \<open>
  C7. The request body of a unary call is the input, normalized, then serialized into an
  envelope, then compressed, then joined; the request body of a streaming call is the same
  composition over the messages written. The consumer of a response, unary or streaming,
  receives the body split into envelopes, then decompressed, then parsed.
\<close>

theorem pipeline_order:
  "req_body (unary_client_request core opt (unary_request core opt service meth timeoutMs header m)) =
     transformJoinEnvelopes core
       (transformCompressEnvelope core (sendCompression opt) (compressMinBytes opt)
          (transformSerializeEnvelope core (getI core (useBinaryFormat opt)) (writeMaxBytes opt)
             ([normalizeMessage meth m], None)))
   \<and> req_body (stream_client_request core opt
        (stream_request core opt service meth timeoutMs header) written) =
     transformJoinEnvelopes core
       (transformCompressEnvelope core (sendCompression opt) (compressMinBytes opt)
          (transformSerializeEnvelope core (getI core (useBinaryFormat opt)) (writeMaxBytes opt)
             (transformNormalizeMessage meth (written, None))))
   \<and> (validateResponseWithCompression core (useBinaryFormat opt) (acceptCompression opt)
         (res_status uRes) (res_header uRes) = Inr (compression, foundStatus) \<longrightarrow>
       unary_receive core opt uRes =
         (case unary_sink
                 (transformParseEnvelope core (getO core (useBinaryFormat opt)) (trailerFlag core)
                    (createTrailerSerialization core)
                    (transformDecompressEnvelope core compression (readMaxBytes opt)
                       (transformSplitEnvelope core (readMaxBytes opt) (res_body uRes)))) of
            Inl e \<Rightarrow> Inl e
          | Inr (trailer, message') \<Rightarrow>
              (case trailer of
                 None \<Rightarrow> Inl (new_ConnectError ''protocol error: missing trailer''
                                (Some ErrorCode_InvalidArgument) None)
               | Some t \<Rightarrow>
                   (case validateTrailer core t of
                      Some e \<Rightarrow> Inl e
                    | None \<Rightarrow>
                        (case message' of
                           None \<Rightarrow> Inl (new_ConnectError
                                          ''protocol error: missing output message for unary method''
                                          (Some ErrorCode_InvalidArgument) None)
                         | Some m' \<Rightarrow>
                             Inr \<lparr> ures_header = res_header uRes, ures_message = m',
                                   ures_trailer = t \<rparr>)))))
   \<and> (outputIt conn = None \<and> universalResponsePromise conn = Fulfilled uRes
        \<and> validateResponseWithCompression core (useBinaryFormat opt) (acceptCompression opt)
            (res_status uRes) (res_header uRes) = Inr (compression, foundStatus) \<longrightarrow>
       read core opt conn =
         Some (read_next core (conn\<lparr>validations := Suc (validations conn)\<rparr>)
                 (NotStarted foundStatus
                    (transformParseEnvelope core (getO core (useBinaryFormat opt)) (trailerFlag core)
                       (createTrailerSerialization core)
                       (transformDecompressEnvelope core compression (readMaxBytes opt)
                          (transformSplitEnvelope core (readMaxBytes opt) (res_body uRes)))))))
   \<and> unary core opt client None service meth timeoutMs header m =
       (case client
               \<lparr> req_url = createMethodUrl core (baseUrl opt) service (method_name meth),
                 req_method = ''POST'',
                 req_header = createRequestHeaderWithCompression core (useBinaryFormat opt)
                    timeoutMs header (acceptCompression opt) (sendCompression opt),
                 req_body =
                   transformJoinEnvelopes core
                     (transformCompressEnvelope core (sendCompression opt) (compressMinBytes opt)
                        (transformSerializeEnvelope core (getI core (useBinaryFormat opt))
                           (writeMaxBytes opt) ([normalizeMessage meth m], None))) \<rparr> of
          Inl e \<Rightarrow> Inl e
        | Inr universalResponse \<Rightarrow> unary_receive core opt universalResponse)"
proof (intro conjI impI)
  show "req_body (unary_client_request core opt (unary_request core opt service meth timeoutMs header m)) =
     transformJoinEnvelopes core
       (transformCompressEnvelope core (sendCompression opt) (compressMinBytes opt)
          (transformSerializeEnvelope core (getI core (useBinaryFormat opt)) (writeMaxBytes opt)
             ([normalizeMessage meth m], None)))"
    by (simp add: unary_client_request_def unary_request_def pipe3_def createAsyncIterable_def
        normalizeMessage_def)
next
  show "req_body (stream_client_request core opt
        (stream_request core opt service meth timeoutMs header) written) =
     transformJoinEnvelopes core
       (transformCompressEnvelope core (sendCompression opt) (compressMinBytes opt)
          (transformSerializeEnvelope core (getI core (useBinaryFormat opt)) (writeMaxBytes opt)
             (transformNormalizeMessage meth (written, None))))"
    by (simp add: stream_client_request_def stream_request_def pipe4_def createAsyncIterable_def)
next
  assume "validateResponseWithCompression core (useBinaryFormat opt) (acceptCompression opt)
         (res_status uRes) (res_header uRes) = Inr (compression, foundStatus)"
  then show "unary_receive core opt uRes =
         (case unary_sink
                 (transformParseEnvelope core (getO core (useBinaryFormat opt)) (trailerFlag core)
                    (createTrailerSerialization core)
                    (transformDecompressEnvelope core compression (readMaxBytes opt)
                       (transformSplitEnvelope core (readMaxBytes opt) (res_body uRes)))) of
            Inl e \<Rightarrow> Inl e
          | Inr (trailer, message') \<Rightarrow>
              (case trailer of
                 None \<Rightarrow> Inl (new_ConnectError ''protocol error: missing trailer''
                                (Some ErrorCode_InvalidArgument) None)
               | Some t \<Rightarrow>
                   (case validateTrailer core t of
                      Some e \<Rightarrow> Inl e
                    | None \<Rightarrow>
                        (case message' of
                           None \<Rightarrow> Inl (new_ConnectError
                                          ''protocol error: missing output message for unary method''
                                          (Some ErrorCode_InvalidArgument) None)
                         | Some m' \<Rightarrow>
                             Inr \<lparr> ures_header = res_header uRes, ures_message = m',
                                   ures_trailer = t \<rparr>))))"
    by (simp add: unary_receive_def pipeTo3_def)
next
  assume "outputIt conn = None \<and> universalResponsePromise conn = Fulfilled uRes
        \<and> validateResponseWithCompression core (useBinaryFormat opt) (acceptCompression opt)
            (res_status uRes) (res_header uRes) = Inr (compression, foundStatus)"
  then show "read core opt conn =
         Some (read_next core (conn\<lparr>validations := Suc (validations conn)\<rparr>)
                 (NotStarted foundStatus
                    (transformParseEnvelope core (getO core (useBinaryFormat opt)) (trailerFlag core)
                       (createTrailerSerialization core)
                       (transformDecompressEnvelope core compression (readMaxBytes opt)
                          (transformSplitEnvelope core (readMaxBytes opt) (res_body uRes))))))"
    by (simp add: read_first response_envelopes_def pipe3_def)
next
  show "unary core opt client None service meth timeoutMs header m =
       (case client
               \<lparr> req_url = createMethodUrl core (baseUrl opt) service (method_name meth),
                 req_method = ''POST'',
                 req_header = createRequestHeaderWithCompression core (useBinaryFormat opt)
                    timeoutMs header (acceptCompression opt) (sendCompression opt),
                 req_body =
                   transformJoinEnvelopes core
                     (transformCompressEnvelope core (sendCompression opt) (compressMinBytes opt)
                        (transformSerializeEnvelope core (getI core (useBinaryFormat opt))
                           (writeMaxBytes opt) ([normalizeMessage meth m], None))) \<rparr> of
          Inl e \<Rightarrow> Inl e
        | Inr universalResponse \<Rightarrow> unary_receive core opt universalResponse)"
    by (simp add: unary_without_interceptors unary_next_def unary_client_request_def
        unary_request_def pipe3_def createAsyncIterable_def normalizeMessage_def)
qed

text \<open>The theorem at the instance.\<close>

theorem pipeline_order_witness:
  "req_body (unary_client_request ex_core ex_opt
      (unary_request ex_core ex_opt ''Eliza'' ex_method None None 107)) =
     ([ [0, 0, 0, 0, 0, 0, 0, 0] ], None)
   \<and> req_body (stream_client_request ex_core ex_opt
        (stream_request ex_core ex_opt ''Eliza'' ex_method None None) [102, 1]) =
     ([ [0, 0, 0], [0, 0] ], None)
   \<and> unary_receive ex_core ex_opt (ex_response [] [ [0, 1, 2], [128] ]) =
     Inr \<lparr> ures_header = [], ures_message = 2, ures_trailer = [(''grpc-status'', ''0'')] \<rparr>
   \<and> map_option snd (read ex_core ex_opt (ex_conn (ex_response [] [ [0, 1, 2], [128] ]))) =
     Some (Inr (ReadValue 2))"
proof -
  let ?R = "ex_response [] [ [0, 1, 2], [128] ]"
  note p = pipeline_order [where core = ex_core and opt = ex_opt and service = "''Eliza''"
      and meth = ex_method and timeoutMs = None and header = None and m = 107
      and written = "[102, 1]" and uRes = ?R and compression = None and foundStatus = False
      and conn = "ex_conn ?R"]
  have 1: "req_body (unary_client_request ex_core ex_opt
      (unary_request ex_core ex_opt ''Eliza'' ex_method None None 107)) =
     ([ [0, 0, 0, 0, 0, 0, 0, 0] ], None)"
    using p by (simp add: ex_core_def ex_opt_def ex_method_def ex_serialization_def normalizeMessage_def
        replicate_numeral_unfold)
  have 2: "req_body (stream_client_request ex_core ex_opt
        (stream_request ex_core ex_opt ''Eliza'' ex_method None None) [102, 1]) =
     ([ [0, 0, 0], [0, 0] ], None)"
    using p by (simp add: ex_core_def ex_opt_def ex_method_def ex_serialization_def normalizeMessage_def
        transformNormalizeMessage_def replicate_numeral_unfold)
  have 3: "unary_receive ex_core ex_opt ?R =
     Inr \<lparr> ures_header = [], ures_message = 2, ures_trailer = [(''grpc-status'', ''0'')] \<rparr>"
    using p ex_valid_plain [of "[ [0, 1, 2], [128] ]"]
    by (simp add: ex_core_def ex_opt_def ex_response_def ex_split_def ex_parse_def unary_sink_def
        ex_validateTrailer_def)
  have 4: "map_option snd (read ex_core ex_opt (ex_conn ?R)) = Some (Inr (ReadValue 2))"
    using p ex_valid_plain [of "[ [0, 1, 2], [128] ]"]
    by (simp add: ex_conn_fresh)
      (simp add: ex_core_def ex_opt_def ex_response_def ex_split_def ex_parse_def read_next_def)
  from 1 2 3 4 show ?thesis by blast
qed

text \<open>
  C8. The unary call uses an input that is an instance of the method's input class
  unchanged and passes any other input through the input constructor, before it is
  serialized; the streaming call maps the same function over the messages sent.
\<close>

theorem outbound_normalization:
  "ureq_message (unary_request core opt service method timeoutMs header m) =
     (if I_instanceof method m then m else I_new method m)
   \<and> req_body (unary_client_request core opt (unary_request core opt service method timeoutMs header m)) =
     transformJoinEnvelopes core
       (transformCompressEnvelope core (sendCompression opt) (compressMinBytes opt)
          (transformSerializeEnvelope core (getI core (useBinaryFormat opt)) (writeMaxBytes opt)
             ([if I_instanceof method m then m else I_new method m], None)))
   \<and> transformNormalizeMessage method (written, err) =
     (map (\<lambda>m. if I_instanceof method m then m else I_new method m) written, err)
   \<and> req_body (stream_client_request core opt
        (stream_request core opt service method timeoutMs header) written) =
     transformJoinEnvelopes core
       (transformCompressEnvelope core (sendCompression opt) (compressMinBytes opt)
          (transformSerializeEnvelope core (getI core (useBinaryFormat opt)) (writeMaxBytes opt)
             (map (\<lambda>m. if I_instanceof method m then m else I_new method m) written, None)))"
  by (simp add: unary_client_request_def unary_request_def stream_client_request_def
      stream_request_def pipe3_def pipe4_def createAsyncIterable_def transformNormalizeMessage_def
      normalizeMessage_fun)

end
